theory Spec2Isabelle
  imports Main "HOL-Library.Word"
begin

unbundle bit_operations_syntax

section \<open>Common ground of the two emulators\<close>

text \<open>
  The repository holds two single-file emulators, \<^verbatim>\<open>mipt32.cpp\<close> (Profile A) and
  \<^verbatim>\<open>mipt64.cpp\<close> (Profile B). Each has an assembler (\<^verbatim>\<open>split\<close>,
  \<^verbatim>\<open>parse_labels\<close>, \<^verbatim>\<open>make_comm\<close>, \<^verbatim>\<open>assemble\<close>) and an execution engine
  (\<^verbatim>\<open>switch_c\<close>, \<^verbatim>\<open>emulate\<close> and one function per opcode) working on global arrays
  \<^verbatim>\<open>mem\<close> and \<^verbatim>\<open>regs\<close>. The globals become fields of a state record that every
  function takes and returns.

  Integer widths are those of an LP64, little-endian target (x86-64 Linux):
  \<^verbatim>\<open>unsigned long int\<close> (the \<^verbatim>\<open>word\<close> of mipt32.cpp) and
  \<^verbatim>\<open>unsigned long long int\<close> (\<^verbatim>\<open>dword\<close>) are both 64 bits wide, \<^verbatim>\<open>int\<close> is 32
  bits wide, \<^verbatim>\<open>char\<close> is a signed byte. Only there do the shifts
  \<^verbatim>\<open>greg(r1 + 1) << 32\<close> of mipt32.cpp have a defined value.
\<close>

type_synonym word_t = "64 word"
type_synonym dword_t = "64 word"
type_synonym byte = "8 word"

text \<open>
  What a call can end in. \<open>Ok\<close> is a normal return. \<open>Exited c\<close> is a call of
  \<^verbatim>\<open>exit(c)\<close>. \<open>Thrown\<close> is the uncaught \<^verbatim>\<open>std::out_of_range\<close> of
  \<^verbatim>\<open>std::map::at\<close>. \<open>Undefined\<close> marks the places where the source does something
  C++ gives no meaning to and checks nothing itself: an index outside an array, a division
  by zero, a shift by the width of the type or more, a read of a variable that
  \<^verbatim>\<open>scanf\<close> did not fill. The source has no error path of its own besides these.
\<close>

datatype 'a outcome = Ok 'a | Exited int | Thrown | Undefined

fun bind :: "'a outcome \<Rightarrow> ('a \<Rightarrow> 'b outcome) \<Rightarrow> 'b outcome" where
  "bind (Ok x) f = f x"
| "bind (Exited c) f = Exited c"
| "bind Thrown f = Thrown"
| "bind Undefined f = Undefined"

subsection \<open>Tokenizer (identical in both files)\<close>

text \<open>
  \<^verbatim>\<open>std::string::find\<close>: the first position of a character, \<open>None\<close> for
  \<^verbatim>\<open>npos\<close>.
\<close>

fun find_char :: "char \<Rightarrow> string \<Rightarrow> nat option" where
  "find_char c [] = None"
| "find_char c (x # xs) = (if x = c then Some 0 else map_option Suc (find_char c xs))"

text \<open>
  \<^verbatim>\<open>split\<close>. The loop runs while \<^verbatim>\<open>find(' ') != find(',')\<close>, which is false only
  when both are \<^verbatim>\<open>npos\<close>. \<^verbatim>\<open>coma\<close> is set when a comma exists and
  \<^verbatim>\<open>find(' ') > find(',') + 1\<close>, where a missing space is \<^verbatim>\<open>npos\<close>, the largest
  value. A comma token keeps its comma (\<^verbatim>\<open>substr(0, pos + 1)\<close>); an empty prefix is
  not pushed; the rest starts after \<^verbatim>\<open>pos\<close>.
\<close>

definition split_at :: "bool \<Rightarrow> nat \<Rightarrow> string \<Rightarrow> string list" where
  "split_at coma pos command =
     (if take pos command \<noteq> []
      then [if coma then take (pos + 1) command else take pos command]
      else [])"

function split :: "string \<Rightarrow> string list" where
  "split command =
     (case (find_char (CHR '' '') command, find_char (CHR '','') command) of
        (None, None) \<Rightarrow> (if command \<noteq> [] then [command] else [])
      | (Some p, None) \<Rightarrow> split_at False p command @ split (drop (p + 1) command)
      | (None, Some c) \<Rightarrow> split_at True c command @ split (drop (c + 1) command)
      | (Some p, Some c) \<Rightarrow>
          (if c + 1 < p
           then split_at True c command @ split (drop (c + 1) command)
           else split_at False p command @ split (drop (p + 1) command)))"
  by pat_completeness auto

lemma find_char_less: "find_char c s = Some p \<Longrightarrow> p < length s"
  by (induction s arbitrary: p) (auto split: if_splits)

lemma find_char_drop: "find_char c s = Some p \<Longrightarrow> length s - Suc p < length s"
  by (drule find_char_less) simp

termination split
proof (relation "measure length")
  show "wf (measure length)" by simp
qed (auto dest: find_char_drop [OF sym])

subsection \<open>Label pass of mipt32.cpp\<close>

text \<open>
  \<^verbatim>\<open>parse_labels\<close> walks the global vector \<^verbatim>\<open>input\<close> by index \<open>i\<close> while it erases
  from it. The loop is a function of the index, the vector and the label map.
  \<^verbatim>\<open>split(input[i])[0]\<close> on a line without tokens reads outside the vector.
\<close>

type_synonym labels = "string \<rightharpoonup> word_t"

definition erase :: "nat \<Rightarrow> 'a list \<Rightarrow> 'a list" where
  "erase i xs = take i xs @ drop (Suc i) xs"

function parse_labels32_from :: "nat \<Rightarrow> string list \<Rightarrow> labels \<Rightarrow> (string list \<times> labels) outcome" where
  "parse_labels32_from i inp label =
     (if i < length inp then
        (case split (inp ! i) of
           [] \<Rightarrow> Undefined
         | first_part # rest \<Rightarrow>
             if last first_part = CHR '':'' then
               (let label' = label(butlast first_part \<mapsto> word_of_nat i) in
                if rest = []
                then parse_labels32_from (i + 1) (erase i inp) label'
                else parse_labels32_from (i + 1)
                       (inp[i := drop (length first_part) (inp ! i)]) label')
             else parse_labels32_from (i + 1) inp label)
      else Ok (inp, label))"
  by pat_completeness auto
termination
  by (relation "measure (\<lambda>(i, inp, label). length inp - i)") (auto simp: erase_def)

definition parse_labels32 :: "string list \<Rightarrow> labels \<Rightarrow> (string list \<times> labels) outcome" where
  "parse_labels32 inp label = parse_labels32_from 0 inp label"


section \<open>Profile A: the execution engine of mipt32.cpp\<close>

subsection \<open>Machine state\<close>

text \<open>
  Console input is a list of the values \<^verbatim>\<open>scanf\<close> will deliver, console output the list of
  the values handed to \<^verbatim>\<open>printf\<close>. A \<^verbatim>\<open>scanf\<close> that finds no value of the kind it
  asks for leaves its variable unset.
\<close>

datatype in_item = InInt "32 word" | InLong "64 word" | InDouble dword_t | InChar byte
datatype out_item = OutInt int | OutDouble dword_t | OutChar byte

text \<open>
  Arithmetic on \<^verbatim>\<open>double\<close> is not interpreted. The operations the emulators use are
  parameters, acting on the bit patterns that \<^verbatim>\<open>memcpy\<close> moves between \<^verbatim>\<open>double\<close> and
  \<^verbatim>\<open>dword\<close>; the conversion from \<^verbatim>\<open>double\<close> to an unsigned integer has no value
  when the number is out of range.
\<close>

record fpu =
  fp_add :: "dword_t \<Rightarrow> dword_t \<Rightarrow> dword_t"
  fp_sub :: "dword_t \<Rightarrow> dword_t \<Rightarrow> dword_t"
  fp_mul :: "dword_t \<Rightarrow> dword_t \<Rightarrow> dword_t"
  fp_div :: "dword_t \<Rightarrow> dword_t \<Rightarrow> dword_t"
  fp_eq :: "dword_t \<Rightarrow> dword_t \<Rightarrow> bool"
  fp_lt :: "dword_t \<Rightarrow> dword_t \<Rightarrow> bool"
  fp_of_word :: "dword_t \<Rightarrow> dword_t"
  fp_to_word :: "dword_t \<Rightarrow> dword_t option"

record state32 =
  mem32 :: "word_t \<Rightarrow> word_t"
  regs32 :: "word_t \<Rightarrow> word_t"
  stdin32 :: "in_item list"
  stdout32 :: "out_item list"

definition MEMSIZE32 :: word_t where
  "MEMSIZE32 = 1048576"

definition f8 :: word_t where "f8 = 0xFF000000"
definition s4 :: word_t where "s4 = 0x00F00000"
definition t4 :: word_t where "t4 = 0x000F0000"
definition l20 :: word_t where "l20 = 0x000FFFFF"
definition l16 :: word_t where "l16 = 0x0000FFFF"
definition l24 :: word_t where "l24 = 0x00FFFFFF"

definition tf8 :: "word_t \<Rightarrow> word_t" where "tf8 x = drop_bit 24 (x AND f8)"
definition ts4 :: "word_t \<Rightarrow> word_t" where "ts4 x = drop_bit 20 (x AND s4)"
definition tt4 :: "word_t \<Rightarrow> word_t" where "tt4 x = drop_bit 16 (x AND t4)"
definition tl20 :: "word_t \<Rightarrow> word_t" where "tl20 x = x AND l20"
definition tl16 :: "word_t \<Rightarrow> word_t" where "tl16 x = x AND l16"
definition tl24 :: "word_t \<Rightarrow> word_t" where "tl24 x = x AND l24"

text \<open>
  \<^verbatim>\<open>gmem\<close>, \<^verbatim>\<open>smem\<close>, \<^verbatim>\<open>greg\<close>, \<^verbatim>\<open>sreg\<close> index \<^verbatim>\<open>mem[MEMSIZE]\<close> and
  \<^verbatim>\<open>regs[17]\<close> with no check of their own.
\<close>

definition gmem32 :: "state32 \<Rightarrow> word_t \<Rightarrow> word_t outcome" where
  "gmem32 s adr = (if adr < MEMSIZE32 then Ok (mem32 s adr) else Undefined)"

definition smem32 :: "word_t \<Rightarrow> word_t \<Rightarrow> state32 \<Rightarrow> state32 outcome" where
  "smem32 adr val s =
     (if adr < MEMSIZE32 then Ok (s\<lparr>mem32 := (mem32 s)(adr := val)\<rparr>) else Undefined)"

definition greg32 :: "state32 \<Rightarrow> word_t \<Rightarrow> word_t outcome" where
  "greg32 s adr = (if adr < 17 then Ok (regs32 s adr) else Undefined)"

definition sreg32 :: "word_t \<Rightarrow> word_t \<Rightarrow> state32 \<Rightarrow> state32 outcome" where
  "sreg32 adr val s =
     (if adr < 17 then Ok (s\<lparr>regs32 := (regs32 s)(adr := val)\<rparr>) else Undefined)"

definition push_stack32 :: "word_t \<Rightarrow> state32 \<Rightarrow> state32 outcome" where
  "push_stack32 val s =
     bind (greg32 s 14) (\<lambda>sp.
     bind (sreg32 14 (sp - 1) s) (\<lambda>s1.
     bind (greg32 s1 14) (\<lambda>sp1.
     smem32 sp1 val s1)))"

definition pop_stack32 :: "word_t \<Rightarrow> state32 \<Rightarrow> (word_t \<times> state32) outcome" where
  "pop_stack32 x s =
     bind (greg32 s 14) (\<lambda>sp.
     bind (gmem32 s sp) (\<lambda>val.
     bind (sreg32 14 (sp + x) s) (\<lambda>s1.
     Ok (val, s1))))"

subsection \<open>Operations\<close>

definition halt32 :: "word_t \<Rightarrow> state32 \<Rightarrow> state32 outcome" where
  "halt32 md s = Exited (sint (ucast md :: 32 word))"

definition lo32 :: "dword_t \<Rightarrow> dword_t" where
  \<comment> \<open>\<^verbatim>\<open>(x << 32) >> 32\<close>\<close>
  "lo32 x = drop_bit 32 (push_bit 32 x)"

definition hi32 :: "dword_t \<Rightarrow> dword_t" where
  \<comment> \<open>\<^verbatim>\<open>x >> 32\<close>\<close>
  "hi32 x = drop_bit 32 x"

definition syscall32 :: "word_t \<Rightarrow> word_t \<Rightarrow> state32 \<Rightarrow> state32 outcome" where
  "syscall32 reg arg s =
     (if arg = 0 then Exited 0
      else if arg = 100 then
        (case stdin32 s of
           InInt scanning_int # rest \<Rightarrow> sreg32 reg (scast scanning_int) (s\<lparr>stdin32 := rest\<rparr>)
         | _ \<Rightarrow> Undefined)
      else if arg = 101 then
        (case stdin32 s of
           InDouble dwi # rest \<Rightarrow>
             bind (sreg32 reg (lo32 dwi) (s\<lparr>stdin32 := rest\<rparr>)) (\<lambda>s1.
             sreg32 (reg + 1) (hi32 dwi) s1)
         | _ \<Rightarrow> Undefined)
      else if arg = 102 then
        bind (greg32 s reg) (\<lambda>v.
        Ok (s\<lparr>stdout32 := stdout32 s @ [OutInt (sint (ucast v :: 32 word))]\<rparr>))
      else if arg = 103 then
        bind (greg32 s reg) (\<lambda>lo.
        bind (greg32 s (reg + 1)) (\<lambda>hi.
        Ok (s\<lparr>stdout32 := stdout32 s @ [OutDouble (lo + push_bit 32 hi)]\<rparr>)))
      else if arg = 104 then
        (case stdin32 s of
           InChar scanning_char # rest \<Rightarrow> sreg32 reg (scast scanning_char) (s\<lparr>stdin32 := rest\<rparr>)
         | _ \<Rightarrow> Undefined)
      else if arg = 105 then
        bind (greg32 s reg) (\<lambda>v.
        Ok (s\<lparr>stdout32 := stdout32 s @ [OutChar (ucast v)]\<rparr>))
      else Ok s)"

definition add32 :: "word_t \<Rightarrow> word_t \<Rightarrow> word_t \<Rightarrow> state32 \<Rightarrow> state32 outcome" where
  "add32 r1 r2 md s =
     bind (greg32 s r1) (\<lambda>a. bind (greg32 s r2) (\<lambda>b. sreg32 r1 (a + b + md) s))"

definition addi32 :: "word_t \<Rightarrow> word_t \<Rightarrow> state32 \<Rightarrow> state32 outcome" where
  "addi32 r1 md s = bind (greg32 s r1) (\<lambda>a. sreg32 r1 (a + md) s)"

definition sub32 :: "word_t \<Rightarrow> word_t \<Rightarrow> word_t \<Rightarrow> state32 \<Rightarrow> state32 outcome" where
  "sub32 r1 r2 md s =
     bind (greg32 s r1) (\<lambda>a. bind (greg32 s r2) (\<lambda>b. sreg32 r1 (a - b - md) s))"

definition subi32 :: "word_t \<Rightarrow> word_t \<Rightarrow> state32 \<Rightarrow> state32 outcome" where
  "subi32 r1 md s = bind (greg32 s r1) (\<lambda>a. sreg32 r1 (a - md) s)"

definition set_pair32 :: "word_t \<Rightarrow> dword_t \<Rightarrow> state32 \<Rightarrow> state32 outcome" where
  \<comment> \<open>the recurring \<^verbatim>\<open>sreg(r1, (res << 32) >> 32); sreg(r1 + 1, res >> 32);\<close>\<close>
  "set_pair32 r1 res s = bind (sreg32 r1 (lo32 res) s) (\<lambda>s1. sreg32 (r1 + 1) (hi32 res) s1)"

definition get_pair32 :: "state32 \<Rightarrow> word_t \<Rightarrow> dword_t outcome" where
  \<comment> \<open>the recurring \<^verbatim>\<open>(greg(r1 + 1) << 32) + greg(r1)\<close>\<close>
  "get_pair32 s r1 =
     bind (greg32 s (r1 + 1)) (\<lambda>hi. bind (greg32 s r1) (\<lambda>lo. Ok (push_bit 32 hi + lo)))"

definition mul32 :: "word_t \<Rightarrow> word_t \<Rightarrow> state32 \<Rightarrow> state32 outcome" where
  "mul32 r1 r2 s =
     bind (greg32 s r1) (\<lambda>a. bind (greg32 s r2) (\<lambda>b. set_pair32 r1 (a * b) s))"

definition muli32 :: "word_t \<Rightarrow> word_t \<Rightarrow> state32 \<Rightarrow> state32 outcome" where
  "muli32 r1 md s = bind (greg32 s r1) (\<lambda>a. set_pair32 r1 (a * md) s)"

text \<open>
  \<^verbatim>\<open>div\<close> and \<^verbatim>\<open>divi\<close> divide with \<^verbatim>\<open>/\<close> and \<^verbatim>\<open>%\<close> and test nothing before.
\<close>

definition div32 :: "word_t \<Rightarrow> word_t \<Rightarrow> state32 \<Rightarrow> state32 outcome" where
  "div32 r1 r2 s =
     bind (get_pair32 s r1) (\<lambda>fir.
     bind (greg32 s r2) (\<lambda>d.
     if d = 0 then Undefined
     else bind (sreg32 r1 (fir div d) s) (\<lambda>s1. sreg32 (r1 + 1) (fir mod d) s1)))"

definition divi32 :: "word_t \<Rightarrow> word_t \<Rightarrow> state32 \<Rightarrow> state32 outcome" where
  "divi32 r1 md s =
     bind (get_pair32 s r1) (\<lambda>big.
     if md = 0 then Undefined
     else bind (sreg32 r1 (big div md) s) (\<lambda>s1. sreg32 (r1 + 1) (big mod md) s1))"

definition lc32 :: "word_t \<Rightarrow> word_t \<Rightarrow> state32 \<Rightarrow> state32 outcome" where
  "lc32 r1 md s = sreg32 r1 md s"

definition shl_word :: "word_t \<Rightarrow> word_t \<Rightarrow> word_t outcome" where
  "shl_word a n = (if n < 64 then Ok (push_bit (unat n) a) else Undefined)"

definition shr_word :: "word_t \<Rightarrow> word_t \<Rightarrow> word_t outcome" where
  "shr_word a n = (if n < 64 then Ok (drop_bit (unat n) a) else Undefined)"

definition shl32 :: "word_t \<Rightarrow> word_t \<Rightarrow> state32 \<Rightarrow> state32 outcome" where
  "shl32 r1 r2 s =
     bind (greg32 s r1) (\<lambda>a. bind (greg32 s r2) (\<lambda>n.
     bind (shl_word a n) (\<lambda>v. sreg32 r1 v s)))"

definition shli32 :: "word_t \<Rightarrow> word_t \<Rightarrow> state32 \<Rightarrow> state32 outcome" where
  "shli32 r1 md s =
     bind (greg32 s r1) (\<lambda>a. bind (shl_word a md) (\<lambda>v. sreg32 r1 v s))"

definition shr32 :: "word_t \<Rightarrow> word_t \<Rightarrow> state32 \<Rightarrow> state32 outcome" where
  "shr32 r1 r2 s =
     bind (greg32 s r1) (\<lambda>a. bind (greg32 s r2) (\<lambda>n.
     bind (shr_word a n) (\<lambda>v. sreg32 r1 v s)))"

definition shri32 :: "word_t \<Rightarrow> word_t \<Rightarrow> state32 \<Rightarrow> state32 outcome" where
  "shri32 r1 md s =
     bind (greg32 s r1) (\<lambda>a. bind (shr_word a md) (\<lambda>v. sreg32 r1 v s))"

definition and1 :: "word_t \<Rightarrow> word_t \<Rightarrow> state32 \<Rightarrow> state32 outcome" where
  "and1 r1 r2 s = bind (greg32 s r1) (\<lambda>a. bind (greg32 s r2) (\<lambda>b. sreg32 r1 (a AND b) s))"

definition andi32 :: "word_t \<Rightarrow> word_t \<Rightarrow> state32 \<Rightarrow> state32 outcome" where
  "andi32 r1 md s = bind (greg32 s r1) (\<lambda>a. sreg32 r1 (a AND md) s)"

definition or1 :: "word_t \<Rightarrow> word_t \<Rightarrow> state32 \<Rightarrow> state32 outcome" where
  "or1 r1 r2 s = bind (greg32 s r1) (\<lambda>a. bind (greg32 s r2) (\<lambda>b. sreg32 r1 (a OR b) s))"

definition ori32 :: "word_t \<Rightarrow> word_t \<Rightarrow> state32 \<Rightarrow> state32 outcome" where
  "ori32 r1 md s = bind (greg32 s r1) (\<lambda>a. sreg32 r1 (a OR md) s)"

definition xor1 :: "word_t \<Rightarrow> word_t \<Rightarrow> state32 \<Rightarrow> state32 outcome" where
  "xor1 r1 r2 s = bind (greg32 s r1) (\<lambda>a. bind (greg32 s r2) (\<lambda>b. sreg32 r1 (a XOR b) s))"

definition xori32 :: "word_t \<Rightarrow> word_t \<Rightarrow> state32 \<Rightarrow> state32 outcome" where
  "xori32 r1 md s = bind (greg32 s r1) (\<lambda>a. sreg32 r1 (a XOR md) s)"

definition not1 :: "word_t \<Rightarrow> state32 \<Rightarrow> state32 outcome" where
  "not1 r1 s = bind (greg32 s r1) (\<lambda>a. sreg32 r1 (NOT a) s)"

definition mov32 :: "word_t \<Rightarrow> word_t \<Rightarrow> word_t \<Rightarrow> state32 \<Rightarrow> state32 outcome" where
  "mov32 r1 r2 md s = bind (greg32 s r2) (\<lambda>b. sreg32 r1 (b + md) s)"

definition fp_binop32 ::
  "(dword_t \<Rightarrow> dword_t \<Rightarrow> dword_t) \<Rightarrow> word_t \<Rightarrow> word_t \<Rightarrow> state32 \<Rightarrow> state32 outcome" where
  \<comment> \<open>the common body of \<^verbatim>\<open>addd\<close>, \<^verbatim>\<open>subd\<close>, \<^verbatim>\<open>muld\<close>, \<^verbatim>\<open>divd\<close>\<close>
  "fp_binop32 f r1 r2 s =
     bind (get_pair32 s r1) (\<lambda>mul1.
     bind (get_pair32 s r2) (\<lambda>mul2.
     set_pair32 r1 (f mul1 mul2) s))"

definition addd32 :: "fpu \<Rightarrow> word_t \<Rightarrow> word_t \<Rightarrow> state32 \<Rightarrow> state32 outcome" where
  "addd32 F = fp_binop32 (fp_add F)"

definition subd32 :: "fpu \<Rightarrow> word_t \<Rightarrow> word_t \<Rightarrow> state32 \<Rightarrow> state32 outcome" where
  "subd32 F = fp_binop32 (fp_sub F)"

definition muld32 :: "fpu \<Rightarrow> word_t \<Rightarrow> word_t \<Rightarrow> state32 \<Rightarrow> state32 outcome" where
  "muld32 F = fp_binop32 (fp_mul F)"

definition divd32 :: "fpu \<Rightarrow> word_t \<Rightarrow> word_t \<Rightarrow> state32 \<Rightarrow> state32 outcome" where
  "divd32 F = fp_binop32 (fp_div F)"

definition itod32 :: "fpu \<Rightarrow> word_t \<Rightarrow> word_t \<Rightarrow> state32 \<Rightarrow> state32 outcome" where
  "itod32 F r1 r2 s = bind (greg32 s r2) (\<lambda>sour. set_pair32 r1 (fp_of_word F sour) s)"

definition dtoi32 :: "fpu \<Rightarrow> word_t \<Rightarrow> word_t \<Rightarrow> state32 \<Rightarrow> state32 outcome" where
  "dtoi32 F r1 r2 s =
     bind (get_pair32 s r2) (\<lambda>sour.
     case fp_to_word F sour of None \<Rightarrow> Undefined | Some re \<Rightarrow> sreg32 r1 re s)"

definition push32 :: "word_t \<Rightarrow> word_t \<Rightarrow> state32 \<Rightarrow> state32 outcome" where
  "push32 r1 md s = bind (greg32 s r1) (\<lambda>a. push_stack32 (a + md) s)"

definition pop32 :: "word_t \<Rightarrow> word_t \<Rightarrow> state32 \<Rightarrow> state32 outcome" where
  "pop32 r1 md s = bind (pop_stack32 1 s) (\<lambda>(val, s1). sreg32 r1 (val + md) s1)"

definition call32 :: "word_t \<Rightarrow> word_t \<Rightarrow> word_t \<Rightarrow> state32 \<Rightarrow> state32 outcome" where
  "call32 r1 r2 md s =
     bind (greg32 s 15) (\<lambda>pc.
     bind (push_stack32 (pc + 1) s) (\<lambda>s1.
     bind (greg32 s1 r2) (\<lambda>b.
     bind (sreg32 15 (b + md - 1) s1) (\<lambda>s2.
     bind (greg32 s2 14) (\<lambda>sp.
     sreg32 r1 sp s2)))))"

definition calli32 :: "word_t \<Rightarrow> state32 \<Rightarrow> state32 outcome" where
  "calli32 tail s =
     bind (greg32 s 15) (\<lambda>pc.
     bind (push_stack32 (pc + 1) s) (\<lambda>s1.
     sreg32 15 (tail - 1) s1))"

definition ret32 :: "word_t \<Rightarrow> state32 \<Rightarrow> state32 outcome" where
  "ret32 md s = bind (pop_stack32 (md + 1) s) (\<lambda>(val, s1). sreg32 15 (val - 1) s1)"

definition cmp32 :: "word_t \<Rightarrow> word_t \<Rightarrow> state32 \<Rightarrow> state32 outcome" where
  "cmp32 r1 r2 s =
     bind (greg32 s r1) (\<lambda>a. bind (greg32 s r2) (\<lambda>b.
     if a = b then sreg32 16 0 s
     else if a < b then sreg32 16 1 s
     else sreg32 16 2 s))"

definition cmpi32 :: "word_t \<Rightarrow> word_t \<Rightarrow> state32 \<Rightarrow> state32 outcome" where
  "cmpi32 r1 md s =
     bind (greg32 s r1) (\<lambda>a.
     if a = md then sreg32 16 0 s
     else if a < md then sreg32 16 1 s
     else sreg32 16 2 s)"

definition cmpd32 :: "fpu \<Rightarrow> word_t \<Rightarrow> word_t \<Rightarrow> state32 \<Rightarrow> state32 outcome" where
  "cmpd32 F r1 r2 s =
     bind (get_pair32 s r1) (\<lambda>first.
     bind (get_pair32 s r2) (\<lambda>second.
     if fp_eq F first second then sreg32 16 0 s
     else if fp_lt F first second then sreg32 16 1 s
     else sreg32 16 2 s))"

definition jmp32 :: "word_t \<Rightarrow> state32 \<Rightarrow> state32 outcome" where
  "jmp32 tail s = sreg32 15 (tail - 1) s"

definition jne32 :: "word_t \<Rightarrow> state32 \<Rightarrow> state32 outcome" where
  "jne32 tail s = bind (greg32 s 16) (\<lambda>f. if f > 0 then sreg32 15 (tail - 1) s else Ok s)"

definition jeq32 :: "word_t \<Rightarrow> state32 \<Rightarrow> state32 outcome" where
  "jeq32 tail s = bind (greg32 s 16) (\<lambda>f. if f = 0 then sreg32 15 (tail - 1) s else Ok s)"

definition jle32 :: "word_t \<Rightarrow> state32 \<Rightarrow> state32 outcome" where
  "jle32 tail s = bind (greg32 s 16) (\<lambda>f. if f < 2 then sreg32 15 (tail - 1) s else Ok s)"

definition jl32 :: "word_t \<Rightarrow> state32 \<Rightarrow> state32 outcome" where
  "jl32 tail s = bind (greg32 s 16) (\<lambda>f. if f = 1 then sreg32 15 (tail - 1) s else Ok s)"

definition jge32 :: "word_t \<Rightarrow> state32 \<Rightarrow> state32 outcome" where
  "jge32 tail s = bind (greg32 s 16) (\<lambda>f. if f \<noteq> 1 then sreg32 15 (tail - 1) s else Ok s)"

definition jg32 :: "word_t \<Rightarrow> state32 \<Rightarrow> state32 outcome" where
  "jg32 tail s = bind (greg32 s 16) (\<lambda>f. if f = 2 then sreg32 15 (tail - 1) s else Ok s)"

definition load32 :: "word_t \<Rightarrow> word_t \<Rightarrow> state32 \<Rightarrow> state32 outcome" where
  "load32 r1 md s = bind (gmem32 s md) (\<lambda>v. sreg32 r1 v s)"

definition store32 :: "word_t \<Rightarrow> word_t \<Rightarrow> state32 \<Rightarrow> state32 outcome" where
  "store32 r1 md s = bind (greg32 s r1) (\<lambda>v. smem32 md v s)"

definition load2_32 :: "word_t \<Rightarrow> word_t \<Rightarrow> state32 \<Rightarrow> state32 outcome" where
  "load2_32 r1 md s =
     bind (gmem32 s md) (\<lambda>v.
     bind (sreg32 r1 v s) (\<lambda>s1.
     bind (gmem32 s1 (md + 1)) (\<lambda>w.
     sreg32 (r1 + 1) w s1)))"

definition store2_32 :: "word_t \<Rightarrow> word_t \<Rightarrow> state32 \<Rightarrow> state32 outcome" where
  "store2_32 r1 md s =
     bind (greg32 s r1) (\<lambda>v.
     bind (smem32 md v s) (\<lambda>s1.
     bind (greg32 s1 (r1 + 1)) (\<lambda>w.
     smem32 (md + 1) w s1)))"

definition loadr32 :: "word_t \<Rightarrow> word_t \<Rightarrow> word_t \<Rightarrow> state32 \<Rightarrow> state32 outcome" where
  "loadr32 r1 r2 md s =
     bind (greg32 s r2) (\<lambda>b. bind (gmem32 s (b + md)) (\<lambda>v. sreg32 r1 v s))"

definition loadr2_32 :: "word_t \<Rightarrow> word_t \<Rightarrow> word_t \<Rightarrow> state32 \<Rightarrow> state32 outcome" where
  "loadr2_32 r1 r2 md s =
     bind (greg32 s r2) (\<lambda>b.
     bind (gmem32 s (b + md)) (\<lambda>v.
     bind (sreg32 r1 v s) (\<lambda>s1.
     bind (greg32 s1 r2) (\<lambda>b1.
     bind (gmem32 s1 (b1 + md + 1)) (\<lambda>w.
     sreg32 (r1 + 1) w s1)))))"

definition storer32 :: "word_t \<Rightarrow> word_t \<Rightarrow> word_t \<Rightarrow> state32 \<Rightarrow> state32 outcome" where
  "storer32 r1 r2 md s =
     bind (greg32 s r2) (\<lambda>b. bind (greg32 s r1) (\<lambda>v. smem32 (md + b) v s))"

definition storer2_32 :: "word_t \<Rightarrow> word_t \<Rightarrow> word_t \<Rightarrow> state32 \<Rightarrow> state32 outcome" where
  "storer2_32 r1 r2 md s =
     bind (greg32 s r2) (\<lambda>b.
     bind (greg32 s r1) (\<lambda>v.
     bind (smem32 (md + b) v s) (\<lambda>s1.
     bind (greg32 s1 (r1 + 1)) (\<lambda>w.
     smem32 (md + 1 + b) w s1))))"


subsection \<open>Decoding and the fetch-execute loop\<close>

datatype format = RI | RR | RM | J

definition TYPE32 :: "word_t \<Rightarrow> format option" where
  "TYPE32 = map_of
     [(0, RI), (1, RI), (2, RR), (3, RI), (4, RR), (5, RI), (6, RR), (7, RI), (8, RR),
      (9, RI), (12, RI), (13, RR), (14, RI), (15, RR), (16, RI), (17, RR), (18, RI),
      (19, RR), (20, RI), (21, RR), (22, RI), (23, RI), (24, RR), (32, RR), (33, RR),
      (34, RR), (35, RR), (36, RR), (37, RR), (38, RI), (39, RI), (40, RR), (41, J),
      (42, RI), (43, RR), (44, RI), (45, RR), (46, J), (47, J), (48, J), (49, J),
      (50, J), (51, J), (52, J), (64, RM), (65, RM), (66, RM), (67, RM), (68, RR),
      (69, RR), (70, RR), (71, RR)]"

text \<open>
  \<^verbatim>\<open>switch_c\<close> declares \<^verbatim>\<open>word r1, r2, mod;\<close> without initial values and assigns
  them by format: all three for \<^verbatim>\<open>RR\<close>, only \<^verbatim>\<open>mod\<close> for \<^verbatim>\<open>RI\<close>, \<^verbatim>\<open>r1\<close> and
  \<^verbatim>\<open>mod\<close> for \<^verbatim>\<open>RM\<close>, none for \<^verbatim>\<open>J\<close>. What an unassigned local holds is the
  parameter \<open>junk\<close>. \<^verbatim>\<open>TYPE.at\<close> throws on an opcode that the table lacks.
\<close>

definition switch_c32 ::
  "fpu \<Rightarrow> word_t \<times> word_t \<times> word_t \<Rightarrow> word_t \<Rightarrow> word_t \<Rightarrow> state32 \<Rightarrow> state32 outcome" where
  "switch_c32 F junk type tail s =
     (case TYPE32 type of
        None \<Rightarrow> Thrown
      | Some fmt \<Rightarrow>
          (let r1 = (if fmt = RR \<or> fmt = RM then ts4 tail else fst junk);
               r2 = (if fmt = RR then tt4 tail else fst (snd junk));
               md = (if fmt = RR then tl16 tail
                     else if fmt = RI \<or> fmt = RM then tl20 tail
                     else snd (snd junk))
           in
             if type = 0 then halt32 md s
             else if type = 1 then syscall32 r1 md s
             else if type = 2 then add32 r1 r2 md s
             else if type = 3 then addi32 r1 md s
             else if type = 4 then sub32 r1 r2 md s
             else if type = 5 then subi32 r1 md s
             else if type = 6 then mul32 r1 r2 s
             else if type = 7 then muli32 r1 md s
             else if type = 8 then div32 r1 r2 s
             else if type = 9 then divi32 r1 md s
             else if type = 12 then lc32 r1 md s
             else if type = 13 then shl32 r1 r2 s
             else if type = 14 then shli32 r1 md s
             else if type = 15 then shr32 r1 r2 s
             else if type = 16 then shri32 r1 md s
             else if type = 17 then and1 r1 r2 s
             else if type = 18 then andi32 r1 md s
             else if type = 19 then or1 r1 r2 s
             else if type = 20 then ori32 r1 md s
             else if type = 21 then xor1 r1 r2 s
             else if type = 22 then xori32 r1 md s
             else if type = 23 then not1 r1 s
             else if type = 24 then mov32 r1 r2 md s
             else if type = 32 then addd32 F r1 r2 s
             else if type = 33 then subd32 F r1 r2 s
             else if type = 34 then muld32 F r1 r2 s
             else if type = 35 then divd32 F r1 r2 s
             else if type = 36 then itod32 F r1 r2 s
             else if type = 37 then dtoi32 F r1 r2 s
             else if type = 38 then push32 r1 md s
             else if type = 39 then pop32 r1 md s
             else if type = 40 then call32 r1 r2 md s
             else if type = 41 then calli32 tail s
             else if type = 42 then ret32 md s
             else if type = 43 then cmp32 r1 r2 s
             else if type = 44 then cmpi32 r1 md s
             else if type = 45 then cmpd32 F r1 r2 s
             else if type = 46 then jmp32 tail s
             else if type = 47 then jne32 tail s
             else if type = 48 then jeq32 tail s
             else if type = 49 then jle32 tail s
             else if type = 50 then jl32 tail s
             else if type = 51 then jge32 tail s
             else if type = 52 then jg32 tail s
             else if type = 64 then load32 r1 md s
             else if type = 65 then store32 r1 md s
             else if type = 66 then load2_32 r1 md s
             else if type = 67 then store2_32 r1 md s
             else if type = 68 then loadr32 r1 r2 md s
             else if type = 69 then loadr2_32 r1 r2 md s
             else if type = 70 then storer32 r1 r2 md s
             else if type = 71 then storer2_32 r1 r2 md s
             else Ok s))"

text \<open>
  One turn of the \<^verbatim>\<open>while (true)\<close> of \<^verbatim>\<open>emulate\<close>: fetch at \<^verbatim>\<open>regs[15]\<close>, dispatch,
  then \<^verbatim>\<open>sreg(15, greg(15) + 1)\<close>.
\<close>

definition emulate_step32 ::
  "fpu \<Rightarrow> word_t \<times> word_t \<times> word_t \<Rightarrow> state32 \<Rightarrow> state32 outcome" where
  "emulate_step32 F junk s =
     bind (greg32 s 15) (\<lambda>pc.
     bind (gmem32 s pc) (\<lambda>row_com.
     bind (switch_c32 F junk (tf8 row_com) (tl24 row_com) s) (\<lambda>s1.
     bind (greg32 s1 15) (\<lambda>pc1.
     sreg32 15 (pc1 + 1) s1))))"

text \<open>
  The loop itself never ends by returning: it runs until an operation leaves through
  \<^verbatim>\<open>exit\<close> (or fails). With fuel \<open>n\<close>, \<open>Ok\<close> means that \<open>n\<close> turns have been made
  and the machine is still running.
\<close>

fun emulate32 :: "fpu \<Rightarrow> (nat \<Rightarrow> word_t \<times> word_t \<times> word_t) \<Rightarrow> nat \<Rightarrow> state32 \<Rightarrow> state32 outcome" where
  "emulate32 F junk 0 s = Ok s"
| "emulate32 F junk (Suc n) s = bind (emulate_step32 F (junk n) s) (emulate32 F junk n)"


section \<open>Profile B: the execution engine of mipt64.cpp\<close>

subsection \<open>Machine state\<close>

text \<open>
  \<^verbatim>\<open>char mem[MEMSIZE]\<close> is addressed by byte; \<^verbatim>\<open>gmem\<close> and \<^verbatim>\<open>smem\<close> move 8 bytes
  with \<^verbatim>\<open>memcpy\<close>, the least significant byte first.
\<close>

record state64 =
  mem64 :: "dword_t \<Rightarrow> byte"
  regs64 :: "dword_t \<Rightarrow> dword_t"
  stdin64 :: "in_item list"
  stdout64 :: "out_item list"

definition MEMSIZE64 :: dword_t where
  "MEMSIZE64 = 2097152"

definition m0_5 :: dword_t where "m0_5 = 0xFC000000"
definition m6_10 :: dword_t where "m6_10 = 0x03E00000"
definition m11_15 :: dword_t where "m11_15 = 0x001F0000"
definition m16_31 :: dword_t where "m16_31 = 0xFFFF"
definition m16_20 :: dword_t where "m16_20 = 0xF800"
definition m21_23 :: dword_t where "m21_23 = 0x0700"
definition m16_18 :: dword_t where "m16_18 = 0xE000"
definition m24_31 :: dword_t where "m24_31 = 0xFF"
definition m21_31 :: dword_t where "m21_31 = 0x7FF"
definition m11_31 :: dword_t where "m11_31 = 0x1FFFFF"
definition m19_31 :: dword_t where "m19_31 = 0x3FFFF"

definition t0_5 :: "dword_t \<Rightarrow> dword_t" where "t0_5 x = drop_bit 26 (x AND m0_5)"
definition t6_10 :: "dword_t \<Rightarrow> dword_t" where "t6_10 x = drop_bit 21 (x AND m6_10)"
definition t11_15 :: "dword_t \<Rightarrow> dword_t" where "t11_15 x = drop_bit 16 (x AND m11_15)"
definition t16_31 :: "dword_t \<Rightarrow> dword_t" where "t16_31 x = x AND m16_31"
definition t16_20 :: "dword_t \<Rightarrow> dword_t" where "t16_20 x = drop_bit 11 (x AND m16_20)"
definition t21_23 :: "dword_t \<Rightarrow> dword_t" where "t21_23 x = drop_bit 8 (x AND m21_23)"
definition t24_31 :: "dword_t \<Rightarrow> dword_t" where "t24_31 x = x AND m24_31"
definition t21_31 :: "dword_t \<Rightarrow> dword_t" where "t21_31 x = x AND m21_31"
definition t11_31 :: "dword_t \<Rightarrow> dword_t" where "t11_31 x = x AND m11_31"
definition t19_31 :: "dword_t \<Rightarrow> dword_t" where "t19_31 x = x AND m19_31"
definition t16_18 :: "dword_t \<Rightarrow> dword_t" where "t16_18 x = drop_bit 13 (x AND m16_18)"

fun load_bytes :: "nat \<Rightarrow> dword_t \<Rightarrow> (dword_t \<Rightarrow> byte) \<Rightarrow> byte list" where
  "load_bytes 0 a m = []"
| "load_bytes (Suc n) a m = m a # load_bytes n (a + 1) m"

fun store_bytes :: "dword_t \<Rightarrow> byte list \<Rightarrow> (dword_t \<Rightarrow> byte) \<Rightarrow> (dword_t \<Rightarrow> byte)" where
  "store_bytes a [] m = m"
| "store_bytes a (b # bs) m = store_bytes (a + 1) bs (m(a := b))"

fun dword_of_bytes :: "byte list \<Rightarrow> dword_t" where
  "dword_of_bytes [] = 0"
| "dword_of_bytes (b # bs) = ucast b OR push_bit 8 (dword_of_bytes bs)"

definition bytes_of_dword :: "dword_t \<Rightarrow> byte list" where
  "bytes_of_dword v = map (\<lambda>i. ucast (drop_bit (8 * i) v)) [0, 1, 2, 3, 4, 5, 6, 7]"

text \<open>
  \<^verbatim>\<open>memcpy(&res, mem + adr, 8)\<close> stays inside the array when \<^verbatim>\<open>adr + 8 <= MEMSIZE\<close>.
  \<^verbatim>\<open>smem\<close> copies the 8 bytes and then assigns \<^verbatim>\<open>mem[adr] = val\<close>, which narrows
  \<^verbatim>\<open>val\<close> to its low byte.
\<close>

definition gmem64 :: "state64 \<Rightarrow> dword_t \<Rightarrow> dword_t outcome" where
  "gmem64 s adr =
     (if adr \<le> MEMSIZE64 - 8 then Ok (dword_of_bytes (load_bytes 8 adr (mem64 s)))
      else Undefined)"

definition smem64 :: "dword_t \<Rightarrow> dword_t \<Rightarrow> state64 \<Rightarrow> state64 outcome" where
  "smem64 adr val s =
     (if adr \<le> MEMSIZE64 - 8
      then Ok (s\<lparr>mem64 := (store_bytes adr (bytes_of_dword val) (mem64 s))(adr := ucast val)\<rparr>)
      else Undefined)"

definition greg64 :: "state64 \<Rightarrow> dword_t \<Rightarrow> dword_t outcome" where
  "greg64 s adr = (if adr < 33 then Ok (regs64 s adr) else Undefined)"

definition sreg64 :: "dword_t \<Rightarrow> dword_t \<Rightarrow> state64 \<Rightarrow> state64 outcome" where
  "sreg64 adr val s =
     (if adr < 33 then Ok (s\<lparr>regs64 := (regs64 s)(adr := val)\<rparr>) else Undefined)"

text \<open>The second parameter of both has the default value 8.\<close>

definition push_stack64 :: "dword_t \<Rightarrow> dword_t \<Rightarrow> state64 \<Rightarrow> state64 outcome" where
  "push_stack64 val x s =
     bind (greg64 s 29) (\<lambda>sp.
     bind (sreg64 29 (sp - x) s) (\<lambda>s1.
     bind (greg64 s1 29) (\<lambda>sp1.
     smem64 sp1 val s1)))"

definition pop_stack64 :: "dword_t \<Rightarrow> state64 \<Rightarrow> (dword_t \<times> state64) outcome" where
  "pop_stack64 x s =
     bind (greg64 s 29) (\<lambda>sp.
     bind (gmem64 s sp) (\<lambda>val.
     bind (sreg64 29 (sp + x) s) (\<lambda>s1.
     Ok (val, s1))))"

subsection \<open>Operations\<close>

definition halt64 :: "dword_t \<Rightarrow> dword_t \<Rightarrow> dword_t \<Rightarrow> state64 \<Rightarrow> state64 outcome" where
  "halt64 rd rs imm s = Exited (sint (ucast imm :: 32 word))"

definition svc64 :: "dword_t \<Rightarrow> dword_t \<Rightarrow> dword_t \<Rightarrow> state64 \<Rightarrow> state64 outcome" where
  "svc64 rd rs imm s =
     (if imm = 0 then Exited 0
      else if imm = 100 then
        (case stdin64 s of
           InLong scanning_int # rest \<Rightarrow> sreg64 rd scanning_int (s\<lparr>stdin64 := rest\<rparr>)
         | _ \<Rightarrow> Undefined)
      else if imm = 101 then
        (case stdin64 s of
           InDouble dwi # rest \<Rightarrow>
             bind (sreg64 rd (lo32 dwi) (s\<lparr>stdin64 := rest\<rparr>)) (\<lambda>s1.
             sreg64 (rd + 1) (hi32 dwi) s1)
         | _ \<Rightarrow> Undefined)
      else if imm = 102 then
        bind (greg64 s rd) (\<lambda>sending_int.
        if rd = 31 \<or> rd = 30
        then Ok (s\<lparr>stdout64 := stdout64 s @ [OutInt (sint (sending_int div 2 + 4))]\<rparr>)
        else Ok (s\<lparr>stdout64 := stdout64 s @ [OutInt (sint sending_int)]\<rparr>))
      else if imm = 103 then
        bind (greg64 s rd) (\<lambda>dwo.
        Ok (s\<lparr>stdout64 := stdout64 s @ [OutDouble dwo]\<rparr>))
      else if imm = 104 then
        (case stdin64 s of
           InChar scanning_char # rest \<Rightarrow> sreg64 rd (scast scanning_char) (s\<lparr>stdin64 := rest\<rparr>)
         | _ \<Rightarrow> Undefined)
      else if imm = 105 then
        bind (greg64 s rd) (\<lambda>v.
        Ok (s\<lparr>stdout64 := stdout64 s @ [OutChar (ucast v)]\<rparr>))
      else Ok s)"

definition add64 :: "dword_t \<Rightarrow> dword_t \<Rightarrow> dword_t \<Rightarrow> state64 \<Rightarrow> state64 outcome" where
  "add64 rd rs imm s =
     (if rd = 31 \<and> rs = 31 then sreg64 rd imm s
      else bind (greg64 s rs) (\<lambda>a. sreg64 rd (a + imm) s))"

definition sub64 :: "dword_t \<Rightarrow> dword_t \<Rightarrow> dword_t \<Rightarrow> state64 \<Rightarrow> state64 outcome" where
  "sub64 rd rs imm s = bind (greg64 s rs) (\<lambda>a. sreg64 rd (a - imm) s)"

definition mul64 :: "dword_t \<Rightarrow> dword_t \<Rightarrow> dword_t \<Rightarrow> state64 \<Rightarrow> state64 outcome" where
  "mul64 rd rs imm s = bind (greg64 s rs) (\<lambda>a. sreg64 rd (a * imm) s)"

text \<open>\<^verbatim>\<open>div\<close> and \<^verbatim>\<open>mod\<close> apply \<^verbatim>\<open>/\<close> and \<^verbatim>\<open>%\<close> to \<^verbatim>\<open>imm\<close> untested.\<close>

definition div64 :: "dword_t \<Rightarrow> dword_t \<Rightarrow> dword_t \<Rightarrow> state64 \<Rightarrow> state64 outcome" where
  "div64 rd rs imm s =
     bind (greg64 s rs) (\<lambda>a. if imm = 0 then Undefined else sreg64 rd (a div imm) s)"

definition mod64 :: "dword_t \<Rightarrow> dword_t \<Rightarrow> dword_t \<Rightarrow> state64 \<Rightarrow> state64 outcome" where
  "mod64 rd rs imm s =
     bind (greg64 s rs) (\<lambda>a. if imm = 0 then Undefined else sreg64 rd (a mod imm) s)"

definition And64 :: "dword_t \<Rightarrow> dword_t \<Rightarrow> dword_t \<Rightarrow> state64 \<Rightarrow> state64 outcome" where
  "And64 rd rs imm s = bind (greg64 s rs) (\<lambda>a. sreg64 rd (a AND imm) s)"

definition Or64 :: "dword_t \<Rightarrow> dword_t \<Rightarrow> dword_t \<Rightarrow> state64 \<Rightarrow> state64 outcome" where
  "Or64 rd rs imm s = bind (greg64 s rs) (\<lambda>a. sreg64 rd (a OR imm) s)"

definition Xor64 :: "dword_t \<Rightarrow> dword_t \<Rightarrow> dword_t \<Rightarrow> state64 \<Rightarrow> state64 outcome" where
  "Xor64 rd rs imm s = bind (greg64 s rs) (\<lambda>a. sreg64 rd (a XOR imm) s)"

definition nand64 :: "dword_t \<Rightarrow> dword_t \<Rightarrow> dword_t \<Rightarrow> state64 \<Rightarrow> state64 outcome" where
  "nand64 rd rs imm s =
     bind (greg64 s rs) (\<lambda>a. bind (greg64 s rs) (\<lambda>a'. sreg64 rd ((a XOR imm) AND a') s))"

definition shl64 :: "dword_t \<Rightarrow> dword_t \<Rightarrow> dword_t \<Rightarrow> state64 \<Rightarrow> state64 outcome" where
  "shl64 rd rs imm s = bind (greg64 s rs) (\<lambda>a. sreg64 rd (push_bit (unat (imm AND 63)) a) s)"

definition shr64 :: "dword_t \<Rightarrow> dword_t \<Rightarrow> dword_t \<Rightarrow> state64 \<Rightarrow> state64 outcome" where
  "shr64 rd rs imm s = bind (greg64 s rs) (\<lambda>a. sreg64 rd (drop_bit (unat (imm AND 63)) a) s)"

definition fp_binop64 ::
  "(dword_t \<Rightarrow> dword_t \<Rightarrow> dword_t) \<Rightarrow> dword_t \<Rightarrow> dword_t \<Rightarrow> dword_t \<Rightarrow> state64 \<Rightarrow> state64 outcome" where
  \<comment> \<open>the common body of \<^verbatim>\<open>addd\<close>, \<^verbatim>\<open>subd\<close>, \<^verbatim>\<open>muld\<close>, \<^verbatim>\<open>divd\<close> and \<^verbatim>\<open>dtoi\<close>\<close>
  "fp_binop64 f rd rs imm s = bind (greg64 s rs) (\<lambda>a. sreg64 rd (f a imm) s)"

definition addd64 :: "fpu \<Rightarrow> dword_t \<Rightarrow> dword_t \<Rightarrow> dword_t \<Rightarrow> state64 \<Rightarrow> state64 outcome" where
  "addd64 F = fp_binop64 (fp_add F)"

definition subd64 :: "fpu \<Rightarrow> dword_t \<Rightarrow> dword_t \<Rightarrow> dword_t \<Rightarrow> state64 \<Rightarrow> state64 outcome" where
  "subd64 F = fp_binop64 (fp_sub F)"

definition muld64 :: "fpu \<Rightarrow> dword_t \<Rightarrow> dword_t \<Rightarrow> dword_t \<Rightarrow> state64 \<Rightarrow> state64 outcome" where
  "muld64 F = fp_binop64 (fp_mul F)"

definition divd64 :: "fpu \<Rightarrow> dword_t \<Rightarrow> dword_t \<Rightarrow> dword_t \<Rightarrow> state64 \<Rightarrow> state64 outcome" where
  "divd64 F = fp_binop64 (fp_div F)"

definition itod64 :: "fpu \<Rightarrow> dword_t \<Rightarrow> dword_t \<Rightarrow> dword_t \<Rightarrow> state64 \<Rightarrow> state64 outcome" where
  "itod64 F rd rs imm s =
     bind (greg64 s rs) (\<lambda>a. sreg64 rd (fp_add F (fp_of_word F a) (fp_of_word F imm)) s)"

definition dtoi64 :: "fpu \<Rightarrow> dword_t \<Rightarrow> dword_t \<Rightarrow> dword_t \<Rightarrow> state64 \<Rightarrow> state64 outcome" where
  "dtoi64 F = fp_binop64 (fp_add F)"

definition bl64 :: "dword_t \<Rightarrow> dword_t \<Rightarrow> state64 \<Rightarrow> state64 outcome" where
  "bl64 ra imm s =
     bind (greg64 s 31) (\<lambda>pc.
     bind (sreg64 30 pc s) (\<lambda>s1.
     if ra = 27 then sreg64 31 imm s1
     else if drop_bit 20 imm mod 2 = 1
       then bind (greg64 s1 31) (\<lambda>pc1. sreg64 31 (pc1 - push_bit 1 imm div 2) s1)
       else bind (greg64 s1 31) (\<lambda>pc1. sreg64 31 (pc1 - imm) s1)))"

text \<open>
  \<^verbatim>\<open>cmp\<close> is three \<^verbatim>\<open>if\<close> statements in a row, each reading the registers anew.
\<close>

definition cmp64 :: "dword_t \<Rightarrow> dword_t \<Rightarrow> dword_t \<Rightarrow> state64 \<Rightarrow> state64 outcome" where
  "cmp64 rd rs imm s =
     bind (greg64 s rd) (\<lambda>a. bind (greg64 s rs) (\<lambda>b.
     bind (if a = b + imm then sreg64 32 0 s else Ok s) (\<lambda>s1.
     bind (greg64 s1 rd) (\<lambda>a1. bind (greg64 s1 rs) (\<lambda>b1.
     bind (if a1 < b1 + imm then sreg64 32 1 s1 else Ok s1) (\<lambda>s2.
     bind (greg64 s2 rd) (\<lambda>a2. bind (greg64 s2 rs) (\<lambda>b2.
     if a2 > b2 + imm then sreg64 32 2 s2 else Ok s2))))))))"

definition cmpd64 :: "fpu \<Rightarrow> dword_t \<Rightarrow> dword_t \<Rightarrow> dword_t \<Rightarrow> state64 \<Rightarrow> state64 outcome" where
  "cmpd64 F rd rs imm s =
     bind (greg64 s rd) (\<lambda>wrd. bind (greg64 s rs) (\<lambda>wrs.
     bind (if fp_eq F wrd (fp_add F wrs imm) then sreg64 32 0 s else Ok s) (\<lambda>s1.
     bind (if fp_lt F wrd (fp_add F wrs imm) then sreg64 32 1 s1 else Ok s1) (\<lambda>s2.
     if fp_lt F (fp_add F wrs imm) wrd then sreg64 32 2 s2 else Ok s2))))"

definition cne64 :: "dword_t \<Rightarrow> dword_t \<Rightarrow> dword_t \<Rightarrow> state64 \<Rightarrow> state64 outcome" where
  "cne64 rd rs imm s = bind (greg64 s 32) (\<lambda>f. if f > 0 then add64 rd rs imm s else Ok s)"

definition ceq64 :: "dword_t \<Rightarrow> dword_t \<Rightarrow> dword_t \<Rightarrow> state64 \<Rightarrow> state64 outcome" where
  "ceq64 rd rs imm s = bind (greg64 s 32) (\<lambda>f. if f = 0 then add64 rd rs imm s else Ok s)"

definition cle64 :: "dword_t \<Rightarrow> dword_t \<Rightarrow> dword_t \<Rightarrow> state64 \<Rightarrow> state64 outcome" where
  "cle64 rd rs imm s = bind (greg64 s 32) (\<lambda>f. if f < 2 then add64 rd rs imm s else Ok s)"

definition clt64 :: "dword_t \<Rightarrow> dword_t \<Rightarrow> dword_t \<Rightarrow> state64 \<Rightarrow> state64 outcome" where
  "clt64 rd rs imm s = bind (greg64 s 32) (\<lambda>f. if f = 1 then add64 rd rs imm s else Ok s)"

definition cge64 :: "dword_t \<Rightarrow> dword_t \<Rightarrow> dword_t \<Rightarrow> state64 \<Rightarrow> state64 outcome" where
  "cge64 rd rs imm s = bind (greg64 s 32) (\<lambda>f. if f \<noteq> 1 then add64 rd rs imm s else Ok s)"

definition cgt64 :: "dword_t \<Rightarrow> dword_t \<Rightarrow> dword_t \<Rightarrow> state64 \<Rightarrow> state64 outcome" where
  "cgt64 rd rs imm s = bind (greg64 s 32) (\<lambda>f. if f = 2 then add64 rd rs imm s else Ok s)"

definition ld64 :: "dword_t \<Rightarrow> dword_t \<Rightarrow> dword_t \<Rightarrow> state64 \<Rightarrow> state64 outcome" where
  "ld64 rd ra imm s =
     (if ra = 29 then bind (pop_stack64 imm s) (\<lambda>(val, s1). sreg64 rd val s1)
      else bind (greg64 s ra) (\<lambda>a. bind (gmem64 s (a + imm)) (\<lambda>v. sreg64 rd v s)))"

definition st64 :: "dword_t \<Rightarrow> dword_t \<Rightarrow> dword_t \<Rightarrow> state64 \<Rightarrow> state64 outcome" where
  "st64 rd ra imm s =
     (if ra = 29 then bind (greg64 s rd) (\<lambda>v. push_stack64 v imm s)
      else bind (greg64 s ra) (\<lambda>a. bind (greg64 s rd) (\<lambda>v. smem64 (a + imm) v s)))"


subsection \<open>Decoding and the fetch-execute loop\<close>

datatype format64 = RR64 | RM64 | B64

definition TYPE64 :: "dword_t \<Rightarrow> format64 option" where
  "TYPE64 = map_of
     [(0, RR64), (1, RR64), (2, RR64), (3, RR64), (4, RR64), (5, RR64), (6, RR64),
      (7, RR64), (8, RR64), (9, RR64), (10, RR64), (11, RR64), (12, RR64), (13, RR64),
      (14, RR64), (15, RR64), (16, RR64), (17, RR64), (18, RR64), (19, B64), (20, RR64),
      (21, RR64), (22, RR64), (23, RR64), (24, RR64), (25, RR64), (26, RR64), (27, RR64),
      (28, RM64), (29, RM64)]"

text \<open>
  The operand fields \<^verbatim>\<open>rd, rs, imm, ra\<close> of \<^verbatim>\<open>switch_c\<close> start at 0 and are filled
  by format. \<^verbatim>\<open>TYPE[type]\<close> yields the empty string for an opcode outside the table,
  which matches no format. The floating opcodes 13 to 16 build their immediate as the
  \<^verbatim>\<open>double\<close> \<^verbatim>\<open>f * (1 << sw) + tw\<close>.
\<close>

definition decode64 ::
  "fpu \<Rightarrow> dword_t \<Rightarrow> state64 \<Rightarrow> (dword_t \<times> dword_t \<times> dword_t \<times> dword_t) outcome" where
  "decode64 F row s =
     (let type = t0_5 row in
      case TYPE64 type of
        Some RR64 \<Rightarrow>
          (let rd = t6_10 row; rs = t11_15 row in
           if rs = 27 then Ok (rd, rs, t16_31 row, 0)
           else if rs = 31 then Ok (rd, rs, t16_31 row, 0)
           else if type = 13 \<or> type = 14 \<or> type = 15 \<or> type = 16 then
             bind (greg64 s (t16_20 row)) (\<lambda>fw.
             Ok (rd, rs,
                 fp_add F (fp_mul F fw (fp_of_word F (push_bit (unat (t21_23 row)) 1)))
                          (fp_of_word F (t24_31 row)),
                 0))
           else
             bind (greg64 s (t16_20 row)) (\<lambda>v.
             Ok (rd, rs, push_bit (unat (t21_23 row)) v + t24_31 row, 0)))
      | Some RM64 \<Rightarrow>
          (let rd = t6_10 row; ra = t11_15 row in
           if ra = 27 \<or> ra = 29 \<or> ra = 31 then Ok (rd, 0, t16_31 row, ra)
           else if t16_20 row = 27 then Ok (rd, 0, t21_31 row, ra)
           else
             bind (greg64 s ra) (\<lambda>a.
             bind (greg64 s (t16_20 row)) (\<lambda>v.
             Ok (rd, 0, a + push_bit (unat (t21_23 row)) v + t24_31 row, ra))))
      | Some B64 \<Rightarrow>
          (let ra = t6_10 row in
           if ra = 27 \<or> ra = 31 \<or> ra = 0 then Ok (0, 0, t21_31 row, ra)
           else
             bind (greg64 s ra) (\<lambda>a.
             bind (greg64 s (t11_15 row)) (\<lambda>v.
             Ok (0, 0, a + push_bit (unat (t16_18 row)) v + t19_31 row, ra))))
      | None \<Rightarrow> Ok (0, 0, 0, 0))"

definition switch_c64 :: "fpu \<Rightarrow> dword_t \<Rightarrow> state64 \<Rightarrow> state64 outcome" where
  "switch_c64 F row s =
     bind (decode64 F row s) (\<lambda>(rd, rs, imm, ra).
     let type = t0_5 row in
       if type = 0 then halt64 rd rs imm s
       else if type = 1 then svc64 rd rs imm s
       else if type = 2 then add64 rd rs imm s
       else if type = 3 then sub64 rd rs imm s
       else if type = 4 then mul64 rd rs imm s
       else if type = 5 then div64 rd rs imm s
       else if type = 6 then mod64 rd rs imm s
       else if type = 7 then And64 rd rs imm s
       else if type = 8 then Or64 rd rs imm s
       else if type = 9 then Xor64 rd rs imm s
       else if type = 10 then nand64 rd rs imm s
       else if type = 11 then shl64 rd rs imm s
       else if type = 12 then shr64 rd rs imm s
       else if type = 13 then addd64 F rd rs imm s
       else if type = 14 then subd64 F rd rs imm s
       else if type = 15 then muld64 F rd rs imm s
       else if type = 16 then divd64 F rd rs imm s
       else if type = 17 then itod64 F rd rs imm s
       else if type = 18 then dtoi64 F rd rs imm s
       else if type = 19 then bl64 ra imm s
       else if type = 20 then cmp64 rd rs imm s
       else if type = 21 then cmpd64 F rd rs imm s
       else if type = 22 then cne64 rd rs imm s
       else if type = 23 then ceq64 rd rs imm s
       else if type = 24 then cle64 rd rs imm s
       else if type = 25 then clt64 rd rs imm s
       else if type = 26 then cge64 rd rs imm s
       else if type = 27 then cgt64 rd rs imm s
       else if type = 28 then ld64 rd ra imm s
       else if type = 29 then st64 rd ra imm s
       else Ok s)"

text \<open>
  One turn of the loop of \<^verbatim>\<open>emulate\<close>: fetch at \<^verbatim>\<open>regs[31]\<close>, dispatch, then
  \<^verbatim>\<open>sreg(31, greg(31) + 8)\<close>.
\<close>

definition emulate_step64 :: "fpu \<Rightarrow> state64 \<Rightarrow> state64 outcome" where
  "emulate_step64 F s =
     bind (greg64 s 31) (\<lambda>pc.
     bind (gmem64 s pc) (\<lambda>row_com.
     bind (switch_c64 F row_com s) (\<lambda>s1.
     bind (greg64 s1 31) (\<lambda>pc1.
     sreg64 31 (pc1 + 8) s1))))"

fun emulate64 :: "fpu \<Rightarrow> nat \<Rightarrow> state64 \<Rightarrow> state64 outcome" where
  "emulate64 F 0 s = Ok s"
| "emulate64 F (Suc n) s = bind (emulate_step64 F s) (emulate64 F n)"


section \<open>Profile B: the assembler of mipt64.cpp\<close>

subsection \<open>Label pass\<close>

text \<open>
  The same loop as in mipt32.cpp, but a label is bound to \<^verbatim>\<open>8 * (i - 1)\<close>. The
  product is formed in \<^verbatim>\<open>int\<close> and then widened to \<^verbatim>\<open>dword\<close>, so that line 0 gives
  \<open>2\<^sup>6\<^sup>4 - 8\<close>; it overflows \<^verbatim>\<open>int\<close> when \<open>i\<close> exceeds \<open>2\<^sup>2\<^sup>8\<close>.
\<close>

function parse_labels64_from :: "nat \<Rightarrow> string list \<Rightarrow> labels \<Rightarrow> (string list \<times> labels) outcome" where
  "parse_labels64_from i inp label =
     (if i < length inp then
        (case split (inp ! i) of
           [] \<Rightarrow> Undefined
         | first_part # rest \<Rightarrow>
             if last first_part = CHR '':'' then
               (if i \<le> 268435456 then
                  (let label' = label(butlast first_part \<mapsto> 8 * (word_of_nat i - 1)) in
                   if rest = []
                   then parse_labels64_from (i + 1) (erase i inp) label'
                   else parse_labels64_from (i + 1)
                          (inp[i := drop (length first_part) (inp ! i)]) label')
                else Undefined)
             else parse_labels64_from (i + 1) inp label)
      else Ok (inp, label))"
  by pat_completeness auto
termination
  by (relation "measure (\<lambda>(i, inp, label). length inp - i)") (auto simp: erase_def)

definition parse_labels64 :: "string list \<Rightarrow> labels \<Rightarrow> (string list \<times> labels) outcome" where
  "parse_labels64 inp label = parse_labels64_from 0 inp label"

subsection \<open>Encode pass\<close>

text \<open>
  \<^verbatim>\<open>assemble\<close> keeps the running byte position \<^verbatim>\<open>pc\<close>. The encoder
  \<^verbatim>\<open>make_comm\<close> and the C library's \<^verbatim>\<open>strtol\<close> and \<^verbatim>\<open>strtod\<close> are parameters:
  \<open>make_comm P lexemes pc label regs\<close> is the instruction word (\<^verbatim>\<open>make_comm\<close> reads
  the label map and, in one branch, the registers), \<open>strtol P str\<close> is
  \<^verbatim>\<open>(dword) strtol(str, nullptr, 10)\<close> and \<open>strtod P str\<close> the bit pattern of
  \<^verbatim>\<open>strtod(str, nullptr)\<close>. \<^verbatim>\<open>label[name]\<close> on a name that is not bound yields 0.
\<close>

record asm_params =
  make_comm :: "string list \<Rightarrow> dword_t \<Rightarrow> labels \<Rightarrow> (dword_t \<Rightarrow> dword_t) \<Rightarrow> dword_t outcome"
  strtol :: "string \<Rightarrow> dword_t"
  strtod :: "string \<Rightarrow> dword_t"

definition label_at :: "labels \<Rightarrow> string \<Rightarrow> dword_t" where
  "label_at label name = (case label name of None \<Rightarrow> 0 | Some v \<Rightarrow> v)"

fun zero_fill :: "nat \<Rightarrow> dword_t \<Rightarrow> state64 \<Rightarrow> (dword_t \<times> state64) outcome" where
  \<comment> \<open>\<^verbatim>\<open>for (int j = 0; j < size / 8; j++) { smem(pc, 0); pc += 8; }\<close>\<close>
  "zero_fill 0 pc s = Ok (pc, s)"
| "zero_fill (Suc n) pc s = bind (smem64 pc 0 s) (zero_fill n (pc + 8))"

text \<open>
  The loop over the lines left by the label pass. \<^verbatim>\<open>end\<close> sets register 31 and
  leaves the loop; every other kind of line goes on with the next line. The result is the
  position reached and the machine state.
\<close>

fun assemble_loop64 ::
  "asm_params \<Rightarrow> labels \<Rightarrow> string list \<Rightarrow> dword_t \<Rightarrow> state64 \<Rightarrow> (dword_t \<times> state64) outcome" where
  "assemble_loop64 P label [] pc s = Ok (pc, s)"
| "assemble_loop64 P label (line # lines) pc s =
     (case split line of
        [] \<Rightarrow> Undefined
      | splited0 # operands \<Rightarrow>
          if splited0 = ''end'' then
            (case operands of
               [] \<Rightarrow> Undefined
             | name # _ \<Rightarrow> bind (sreg64 31 (label_at label name + 8) s) (\<lambda>s1. Ok (pc, s1)))
          else if splited0 = ''word'' then
            (case operands of
               [] \<Rightarrow> Undefined
             | lit # _ \<Rightarrow>
                 bind (smem64 pc (strtol P lit) s) (\<lambda>s1.
                 assemble_loop64 P label lines (pc + 8) s1))
          else if splited0 = ''double'' then
            (case operands of
               [] \<Rightarrow> Undefined
             | lit # _ \<Rightarrow>
                 bind (smem64 pc (strtod P lit) s) (\<lambda>s1.
                 assemble_loop64 P label lines (pc + 8) s1))
          else if splited0 = ''bytes'' then
            (case operands of
               [] \<Rightarrow> Undefined
             | lit # _ \<Rightarrow>
                 (let size = strtol P lit in
                  bind (zero_fill (unat (size div 8)) pc s) (\<lambda>(pc1, s1).
                  bind (if size mod 8 > 4 then smem64 pc1 0 s1
                        else if size mod 8 > 0
                          then bind (gmem64 s1 pc1) (\<lambda>hos. smem64 pc1 (hos AND 0xFFFFFFFF) s1)
                          else Ok s1) (\<lambda>s2.
                  assemble_loop64 P label lines pc1 s2))))
          else
            bind (make_comm P (splited0 # operands) pc label (regs64 s)) (\<lambda>comm.
            bind (smem64 pc comm s) (\<lambda>s1.
            assemble_loop64 P label lines (pc + 8) s1)))"

definition assemble64 :: "asm_params \<Rightarrow> string list \<Rightarrow> state64 \<Rightarrow> (string list \<times> labels \<times> state64) outcome" where
  "assemble64 P inp s =
     bind (parse_labels64 inp Map.empty) (\<lambda>(inp', label).
     bind (assemble_loop64 P label inp' 0 s) (\<lambda>(pc, s1).
     bind (sreg64 29 (MEMSIZE64 - 8) s1) (\<lambda>s2.
     bind (sreg64 27 0 s2) (\<lambda>s3.
     Ok (inp', label, s3)))))"

section \<open>Definitions used to state the properties\<close>

text \<open>
  The global arrays of both programs have static storage, so they start filled with
  zeros.
\<close>

definition init32 :: state32 where
  "init32 = \<lparr>mem32 = (\<lambda>_. 0), regs32 = (\<lambda>_. 0), stdin32 = [], stdout32 = []\<rparr>"

definition init64 :: state64 where
  "init64 = \<lparr>mem64 = (\<lambda>_. 0), regs64 = (\<lambda>_. 0), stdin64 = [], stdout64 = []\<rparr>"

text \<open>
  The tri-state outcome of a comparison as the programs encode it in the flag register:
  0 for Equal, 1 for Less, 2 for Greater, on unsigned words.
\<close>

definition flag_of :: "word_t \<Rightarrow> word_t \<Rightarrow> word_t" where
  "flag_of a b = (if a = b then 0 else if a < b then 1 else 2)"

text \<open>A state of Profile A after \<^verbatim>\<open>sreg(15, tail - 1)\<close>.\<close>

definition redirect32 :: "word_t \<Rightarrow> state32 \<Rightarrow> state32" where
  "redirect32 tail s = s\<lparr>regs32 := (regs32 s)(15 := tail - 1)\<rparr>"

text \<open>
  A run of pushes, first value first, and a run of \<open>n\<close> pops collecting what they return.
  Profile A pops with the default argument 1, Profile B pushes and pops with the default
  argument 8.
\<close>

fun push_all32 :: "word_t list \<Rightarrow> state32 \<Rightarrow> state32 outcome" where
  "push_all32 [] s = Ok s"
| "push_all32 (v # vs) s = bind (push_stack32 v s) (push_all32 vs)"

fun pop_all32 :: "nat \<Rightarrow> state32 \<Rightarrow> (word_t list \<times> state32) outcome" where
  "pop_all32 0 s = Ok ([], s)"
| "pop_all32 (Suc n) s =
     bind (pop_stack32 1 s) (\<lambda>(v, s1).
     bind (pop_all32 n s1) (\<lambda>(vs, s2). Ok (v # vs, s2)))"

fun push_all64 :: "dword_t list \<Rightarrow> state64 \<Rightarrow> state64 outcome" where
  "push_all64 [] s = Ok s"
| "push_all64 (v # vs) s = bind (push_stack64 v 8 s) (push_all64 vs)"

fun pop_all64 :: "nat \<Rightarrow> state64 \<Rightarrow> (dword_t list \<times> state64) outcome" where
  "pop_all64 0 s = Ok ([], s)"
| "pop_all64 (Suc n) s =
     bind (pop_stack64 8 s) (\<lambda>(v, s1).
     bind (pop_all64 n s1) (\<lambda>(vs, s2). Ok (v # vs, s2)))"

text \<open>A floating-point unit that answers 0 to everything, for concrete runs.\<close>

definition fpu0 :: fpu where
  "fpu0 = \<lparr>fp_add = (\<lambda>_ _. 0), fp_sub = (\<lambda>_ _. 0), fp_mul = (\<lambda>_ _. 0), fp_div = (\<lambda>_ _. 0),
            fp_eq = (\<lambda>_ _. False), fp_lt = (\<lambda>_ _. False), fp_of_word = (\<lambda>_. 0),
            fp_to_word = (\<lambda>_. None)\<rparr>"

text \<open>
  Programs in the shape that \<^verbatim>\<open>file_input\<close> normally delivers: a list of
  instruction lines, each optionally preceded by one label-only line. \<open>render\<close> gives
  the lines; \<open>bind_labels i items label\<close> lists the bindings \<open>name \<mapsto> 8 * (j - 1)\<close>
  for a label in front of the instruction with index \<open>j\<close>, counted from \<open>i\<close>.
\<close>

definition label_only :: "string \<Rightarrow> bool" where
  "label_only line \<longleftrightarrow> split line = [line] \<and> last line = CHR '':''"

definition instruction_line :: "string \<Rightarrow> bool" where
  "instruction_line line =
     (case split line of
        [] \<Rightarrow> False
      | t # operands \<Rightarrow>
          last t \<noteq> CHR '':'' \<and> t \<noteq> ''end'' \<and> t \<noteq> ''bytes''
          \<and> (if t = ''word'' \<or> t = ''double'' then operands \<noteq> [] else True))"

fun render :: "(string option \<times> string) list \<Rightarrow> string list" where
  "render [] = []"
| "render ((None, ins) # items) = ins # render items"
| "render ((Some l, ins) # items) = l # ins # render items"

fun bind_labels :: "nat \<Rightarrow> (string option \<times> string) list \<Rightarrow> labels \<Rightarrow> labels" where
  "bind_labels i [] label = label"
| "bind_labels i ((None, ins) # items) label = bind_labels (i + 1) items label"
| "bind_labels i ((Some l, ins) # items) label =
     bind_labels (i + 1) items (label(butlast l \<mapsto> 8 * (word_of_nat i - 1)))"

definition well_formed :: "(string option \<times> string) list \<Rightarrow> bool" where
  "well_formed items \<longleftrightarrow>
     (\<forall>(l, ins) \<in> set items. (case l of None \<Rightarrow> True | Some ll \<Rightarrow> label_only ll)
        \<and> instruction_line ins)"

text \<open>
  An encoder that encodes every instruction as its position plus 1, for concrete runs: the
  word found in memory tells where the instruction was written.
\<close>

definition asm0 :: asm_params where
  "asm0 = \<lparr>make_comm = (\<lambda>_ pc _ _. Ok (pc + 1)), strtol = (\<lambda>_. 0), strtod = (\<lambda>_. 0)\<rparr>"

section \<open>Properties\<close>

subsection \<open>Auxiliary facts\<close>

lemma bind_eq_Ok: "bind x f = Ok y \<longleftrightarrow> (\<exists>z. x = Ok z \<and> f z = Ok y)"
  by (cases x) auto

lemma xor_and_is_bit_clear: "(a XOR b) AND a = a AND NOT (b :: 64 word)"
  by (auto simp: bit_eq_iff bit_simps)

lemma bit_clear_vs_nand: "((a XOR b) AND a = NOT (a AND b)) \<longleftrightarrow> a = (-1 :: 64 word)"
  by (auto simp: bit_eq_iff bit_simps)

paragraph \<open>Bytes and double words\<close>

lemma split_byte: "(ucast (ucast w :: 8 word) :: 64 word) OR push_bit 8 (drop_bit 8 w) = w"
proof (rule bit_word_eqI)
  fix n assume "n < LENGTH(64)"
  then show "bit (ucast (ucast w :: 8 word) OR push_bit 8 (drop_bit 8 w)) n = bit w n"
    by (cases "n < 8") (auto simp: bit_simps)
qed

lemma byte_step:
  "ucast (ucast (drop_bit n v) :: 8 word) OR push_bit 8 (drop_bit (n + 8) v) = drop_bit n (v :: 64 word)"
  using split_byte [of "drop_bit n v"] by (simp add: drop_bit_drop_bit add.commute)

lemma drop_bit_64: "drop_bit 64 (v :: 64 word) = 0"
  by (rule bit_word_eqI) (simp add: bit_simps)

lemma dword_of_bytes_of_dword: "dword_of_bytes (bytes_of_dword v) = v"
proof -
  have "dword_of_bytes (bytes_of_dword v) =
      ucast (ucast (drop_bit 0 v) :: 8 word) OR push_bit 8
       (ucast (ucast (drop_bit 8 v) :: 8 word) OR push_bit 8
        (ucast (ucast (drop_bit 16 v) :: 8 word) OR push_bit 8
         (ucast (ucast (drop_bit 24 v) :: 8 word) OR push_bit 8
          (ucast (ucast (drop_bit 32 v) :: 8 word) OR push_bit 8
           (ucast (ucast (drop_bit 40 v) :: 8 word) OR push_bit 8
            (ucast (ucast (drop_bit 48 v) :: 8 word) OR push_bit 8
             (ucast (ucast (drop_bit 56 v) :: 8 word) OR push_bit 8 (drop_bit 64 v))))))))"
    by (simp add: bytes_of_dword_def drop_bit_64)
  also have "\<dots> = drop_bit 0 v"
    using byte_step [of 56 v] byte_step [of 48 v] byte_step [of 40 v] byte_step [of 32 v]
      byte_step [of 24 v] byte_step [of 16 v] byte_step [of 8 v] byte_step [of 0 v]
    by simp
  finally show ?thesis by simp
qed

lemma store_bytes_other:
  "(\<forall>i < length bs. a + of_nat i \<noteq> x) \<Longrightarrow> store_bytes a bs m x = m x"
proof (induction bs arbitrary: a m)
  case Nil
  then show ?case by simp
next
  case (Cons b bs)
  have rest: "\<forall>i<length bs. a + 1 + of_nat i \<noteq> x"
  proof (intro allI impI)
    fix i assume "i < length bs"
    then have "a + of_nat (Suc i) \<noteq> x" using Cons.prems by auto
    then show "a + 1 + of_nat i \<noteq> x" by (simp add: ac_simps)
  qed
  have neq: "a \<noteq> x" using Cons.prems by force
  have "store_bytes (a + 1) bs (m(a := b)) x = (m(a := b)) x"
    using rest by (rule Cons.IH)
  then show ?case using neq by simp
qed

lemma load_store_bytes:
  "length bs < 2 ^ 64 \<Longrightarrow> load_bytes (length bs) a (store_bytes a bs m) = bs"
proof (induction bs arbitrary: a m)
  case Nil
  then show ?case by simp
next
  case (Cons b bs)
  have "\<forall>i<length bs. a + 1 + of_nat i \<noteq> a"
  proof (intro allI impI)
    fix i assume i: "i < length bs"
    have "Suc i < 2 ^ 64" using i Cons.prems by simp
    then have "(of_nat (Suc i) :: 64 word) \<noteq> 0"
      by (intro of_nat_neq_0) simp_all
    then show "a + 1 + of_nat i \<noteq> a" by (simp add: ac_simps)
  qed
  then have "store_bytes (a + 1) bs (m(a := b)) a = b"
    by (simp add: store_bytes_other)
  moreover have "length bs < 2 ^ 64" using Cons.prems by simp
  then have "load_bytes (length bs) (a + 1) (store_bytes (a + 1) bs (m(a := b))) = bs"
    by (rule Cons.IH)
  ultimately show ?case by simp
qed

lemma load_bytes_cong:
  "(\<forall>i < n. m (a + of_nat i) = m' (a + of_nat i)) \<Longrightarrow> load_bytes n a m = load_bytes n a m'"
proof (induction n arbitrary: a)
  case 0
  then show ?case by simp
next
  case (Suc n)
  have "\<forall>i<n. m (a + 1 + of_nat i) = m' (a + 1 + of_nat i)"
  proof (intro allI impI)
    fix i assume "i < n"
    then have "m (a + of_nat (Suc i)) = m' (a + of_nat (Suc i))" using Suc.prems by blast
    then show "m (a + 1 + of_nat i) = m' (a + 1 + of_nat i)" by (simp add: ac_simps)
  qed
  moreover have "m a = m' a" using Suc.prems by force
  ultimately show ?case using Suc.IH [of "a + 1"] by simp
qed

lemma length_bytes_of_dword: "length (bytes_of_dword v) = 8"
  by (simp add: bytes_of_dword_def)

lemma hd_bytes_of_dword: "bytes_of_dword v = ucast v # tl (bytes_of_dword v)"
  by (simp add: bytes_of_dword_def)

lemma store_bytes_head:
  "length bs < 2 ^ 64 \<Longrightarrow> bs \<noteq> [] \<Longrightarrow> store_bytes a bs m a = hd bs"
  using load_store_bytes [of bs a m] by (cases bs) auto

lemma smem64_result:
  assumes "adr \<le> MEMSIZE64 - 8"
  shows "smem64 adr val s = Ok (s\<lparr>mem64 := store_bytes adr (bytes_of_dword val) (mem64 s)\<rparr>)"
proof -
  have "store_bytes adr (bytes_of_dword val) (mem64 s) adr = ucast val"
    using store_bytes_head [of "bytes_of_dword val" adr "mem64 s"]
    by (simp add: bytes_of_dword_def)
  then have "(store_bytes adr (bytes_of_dword val) (mem64 s))(adr := ucast val)
      = store_bytes adr (bytes_of_dword val) (mem64 s)"
    by (metis fun_upd_triv)
  then show ?thesis using assms by (simp add: smem64_def)
qed

lemma gmem64_smem64_same:
  assumes "adr \<le> MEMSIZE64 - 8" "smem64 adr val s = Ok s'"
  shows "gmem64 s' adr = Ok val"
proof -
  have s': "s' = s\<lparr>mem64 := store_bytes adr (bytes_of_dword val) (mem64 s)\<rparr>"
    using assms smem64_result by simp
  have "load_bytes 8 adr (store_bytes adr (bytes_of_dword val) (mem64 s)) = bytes_of_dword val"
    using load_store_bytes [of "bytes_of_dword val" adr "mem64 s"]
    by (simp add: length_bytes_of_dword)
  then show ?thesis using assms(1) s'
    by (simp add: gmem64_def dword_of_bytes_of_dword)
qed

paragraph \<open>The stack of Profile A\<close>

lemma push_stack32_result:
  assumes "regs32 s 14 - 1 < MEMSIZE32"
  shows "push_stack32 val s =
     Ok (s\<lparr>regs32 := (regs32 s)(14 := regs32 s 14 - 1),
           mem32 := (mem32 s)(regs32 s 14 - 1 := val)\<rparr>)"
  using assms by (simp add: push_stack32_def greg32_def sreg32_def smem32_def)

lemma pop_stack32_result:
  assumes "regs32 s 14 < MEMSIZE32"
  shows "pop_stack32 x s =
     Ok (mem32 s (regs32 s 14), s\<lparr>regs32 := (regs32 s)(14 := regs32 s 14 + x)\<rparr>)"
  using assms by (simp add: pop_stack32_def greg32_def sreg32_def gmem32_def)

lemma pop_all32_append:
  "pop_all32 n s = Ok (xs, s1) \<Longrightarrow> pop_all32 m s1 = Ok (ys, s2) \<Longrightarrow>
   pop_all32 (n + m) s = Ok (xs @ ys, s2)"
proof (induction n arbitrary: s xs)
  case 0
  then show ?case by simp
next
  case (Suc n)
  from Suc.prems(1) obtain v s' xs' where
    pop: "pop_stack32 1 s = Ok (v, s')" and rest: "pop_all32 n s' = Ok (xs', s1)" and xs: "xs = v # xs'"
    by (auto simp: bind_eq_Ok)
  have "pop_all32 (n + m) s' = Ok (xs' @ ys, s2)"
    using rest Suc.prems(2) by (rule Suc.IH)
  then show ?case using pop xs by simp
qed

lemma word_pred_unat: "(sp :: 64 word) \<noteq> 0 \<Longrightarrow> unat (sp - 1) = unat sp - 1"
  by (simp add: unat_minus_one)

lemma push_pop_all32:
  "length vs \<le> unat (regs32 s 14) \<Longrightarrow> unat (regs32 s 14) \<le> unat MEMSIZE32 \<Longrightarrow>
   \<exists>s1. push_all32 vs s = Ok s1
        \<and> regs32 s1 14 = regs32 s 14 - of_nat (length vs)
        \<and> (\<forall>a. unat (regs32 s 14) \<le> unat a \<longrightarrow> mem32 s1 a = mem32 s a)
        \<and> pop_all32 (length vs) s1 = Ok (rev vs, s1\<lparr>regs32 := (regs32 s1)(14 := regs32 s 14)\<rparr>)"
proof (induction vs arbitrary: s)
  case Nil
  have "s\<lparr>regs32 := (regs32 s)(14 := regs32 s 14)\<rparr> = s" by simp
  then show ?case by (intro exI [of _ s]) simp
next
  case (Cons v vs)
  let ?sp = "regs32 s 14"
  let ?s' = "s\<lparr>regs32 := (regs32 s)(14 := ?sp - 1), mem32 := (mem32 s)(?sp - 1 := v)\<rparr>"
  have sp0: "?sp \<noteq> 0" using Cons.prems(1) by (auto simp: unat_eq_zero)
  have usp: "unat (?sp - 1) = unat ?sp - 1" using sp0 by (rule word_pred_unat)
  have inr: "?sp - 1 < MEMSIZE32"
    using Cons.prems usp sp0 by (simp add: word_less_nat_alt unat_gt_0)
  have push: "push_stack32 v s = Ok ?s'" using inr by (rule push_stack32_result)
  have "length vs \<le> unat (regs32 ?s' 14)" using Cons.prems usp by simp
  moreover have "unat (regs32 ?s' 14) \<le> unat MEMSIZE32" using Cons.prems usp by simp
  ultimately obtain s1 where s1: "push_all32 vs ?s' = Ok s1"
      and r1: "regs32 s1 14 = regs32 ?s' 14 - of_nat (length vs)"
      and f1: "\<forall>a. unat (regs32 ?s' 14) \<le> unat a \<longrightarrow> mem32 s1 a = mem32 ?s' a"
      and p1: "pop_all32 (length vs) s1 = Ok (rev vs, s1\<lparr>regs32 := (regs32 s1)(14 := regs32 ?s' 14)\<rparr>)"
    using Cons.IH [of ?s'] by blast
  let ?s2 = "s1\<lparr>regs32 := (regs32 s1)(14 := ?sp - 1)\<rparr>"
  have top: "mem32 s1 (?sp - 1) = v" using f1 by simp
  have pop1: "pop_stack32 1 ?s2 = Ok (v, s1\<lparr>regs32 := (regs32 s1)(14 := ?sp)\<rparr>)"
    using inr top by (simp add: pop_stack32_result)
  have "pop_all32 (length vs + 1) s1 = Ok (rev vs @ [v], s1\<lparr>regs32 := (regs32 s1)(14 := ?sp)\<rparr>)"
    using p1 pop1 by (intro pop_all32_append [where ?s1.0 = ?s2]) simp_all
  moreover have "\<forall>a. unat ?sp \<le> unat a \<longrightarrow> mem32 s1 a = mem32 s a"
  proof (intro allI impI)
    fix a :: word_t assume a: "unat ?sp \<le> unat a"
    have "0 < unat ?sp" using sp0 by (simp add: unat_gt_0)
    then have "unat (?sp - 1) < unat a" using a usp by linarith
    then have "a \<noteq> ?sp - 1" by auto
    moreover have "unat (regs32 ?s' 14) \<le> unat a" using a usp by simp
    ultimately show "mem32 s1 a = mem32 s a" using f1 by simp
  qed
  moreover have "regs32 s1 14 = ?sp - of_nat (length (v # vs))" using r1 by simp
  ultimately show ?case using push s1 by (intro exI [of _ s1]) (simp add: fun_upd_def)
qed

paragraph \<open>The stack of Profile B\<close>

lemma unat_plus_small:
  "unat a + i < 2 ^ 64 \<Longrightarrow> unat (a + of_nat i :: 64 word) = unat a + i"
  by (simp add: unat_word_ariths unat_of_nat)

lemma unat_minus_8: "8 \<le> unat (sp :: 64 word) \<Longrightarrow> unat (sp - 8) = unat sp - 8"
  by (simp add: unat_sub word_le_nat_alt)

lemma in_range64: "unat a + 8 \<le> unat MEMSIZE64 \<longleftrightarrow> a \<le> MEMSIZE64 - 8"
  by (auto simp: MEMSIZE64_def word_le_nat_alt)

lemma push_stack64_result:
  assumes "regs64 s 29 - 8 \<le> MEMSIZE64 - 8"
  shows "push_stack64 val 8 s =
     Ok (s\<lparr>regs64 := (regs64 s)(29 := regs64 s 29 - 8),
           mem64 := store_bytes (regs64 s 29 - 8) (bytes_of_dword val) (mem64 s)\<rparr>)"
  using assms by (simp add: push_stack64_def greg64_def sreg64_def smem64_result)

lemma pop_stack64_result:
  assumes "regs64 s 29 \<le> MEMSIZE64 - 8"
  shows "pop_stack64 x s =
     Ok (dword_of_bytes (load_bytes 8 (regs64 s 29) (mem64 s)),
         s\<lparr>regs64 := (regs64 s)(29 := regs64 s 29 + x)\<rparr>)"
  using assms by (simp add: pop_stack64_def greg64_def sreg64_def gmem64_def)

lemma pop_all64_append:
  "pop_all64 n s = Ok (xs, s1) \<Longrightarrow> pop_all64 m s1 = Ok (ys, s2) \<Longrightarrow>
   pop_all64 (n + m) s = Ok (xs @ ys, s2)"
proof (induction n arbitrary: s xs)
  case 0
  then show ?case by simp
next
  case (Suc n)
  from Suc.prems(1) obtain v s' xs' where
    pop: "pop_stack64 8 s = Ok (v, s')" and rest: "pop_all64 n s' = Ok (xs', s1)" and xs: "xs = v # xs'"
    by (auto simp: bind_eq_Ok)
  have "pop_all64 (n + m) s' = Ok (xs' @ ys, s2)"
    using rest Suc.prems(2) by (rule Suc.IH)
  then show ?case using pop xs by simp
qed

lemma push_pop_all64:
  "8 * length vs \<le> unat (regs64 s 29) \<Longrightarrow> unat (regs64 s 29) \<le> unat MEMSIZE64 \<Longrightarrow>
   \<exists>s1. push_all64 vs s = Ok s1
        \<and> regs64 s1 29 = regs64 s 29 - 8 * of_nat (length vs)
        \<and> (\<forall>a. unat (regs64 s 29) \<le> unat a \<longrightarrow> mem64 s1 a = mem64 s a)
        \<and> pop_all64 (length vs) s1 = Ok (rev vs, s1\<lparr>regs64 := (regs64 s1)(29 := regs64 s 29)\<rparr>)"
proof (induction vs arbitrary: s)
  case Nil
  have "s\<lparr>regs64 := (regs64 s)(29 := regs64 s 29)\<rparr> = s" by simp
  then show ?case by (intro exI [of _ s]) simp
next
  case (Cons v vs)
  let ?sp = "regs64 s 29"
  let ?m' = "store_bytes (?sp - 8) (bytes_of_dword v) (mem64 s)"
  let ?s' = "s\<lparr>regs64 := (regs64 s)(29 := ?sp - 8), mem64 := ?m'\<rparr>"
  have sp8: "8 \<le> unat ?sp" using Cons.prems(1) by simp
  have usp: "unat (?sp - 8) = unat ?sp - 8" using sp8 by (rule unat_minus_8)
  have inr: "?sp - 8 \<le> MEMSIZE64 - 8"
    using Cons.prems(2) usp sp8 by (simp add: in_range64 [symmetric])
  have cell: "unat (?sp - 8 + of_nat i) = unat ?sp - 8 + i" if "i < 8" for i
    using that usp sp8 Cons.prems(2) by (simp add: unat_plus_small MEMSIZE64_def)
  have push: "push_stack64 v 8 s = Ok ?s'" using inr by (rule push_stack64_result)
  have "8 * length vs \<le> unat (regs64 ?s' 29)" using Cons.prems usp by simp
  moreover have "unat (regs64 ?s' 29) \<le> unat MEMSIZE64" using Cons.prems usp by simp
  ultimately obtain s1 where s1: "push_all64 vs ?s' = Ok s1"
      and r1: "regs64 s1 29 = regs64 ?s' 29 - 8 * of_nat (length vs)"
      and f1: "\<forall>a. unat (regs64 ?s' 29) \<le> unat a \<longrightarrow> mem64 s1 a = mem64 ?s' a"
      and p1: "pop_all64 (length vs) s1 = Ok (rev vs, s1\<lparr>regs64 := (regs64 s1)(29 := regs64 ?s' 29)\<rparr>)"
    using Cons.IH [of ?s'] by blast
  let ?s2 = "s1\<lparr>regs64 := (regs64 s1)(29 := ?sp - 8)\<rparr>"
  have "load_bytes 8 (?sp - 8) (mem64 s1) = load_bytes 8 (?sp - 8) ?m'"
  proof (rule load_bytes_cong, intro allI impI)
    fix i :: nat assume "i < 8"
    then have "unat (regs64 ?s' 29) \<le> unat (?sp - 8 + of_nat i)" using cell usp by simp
    then show "mem64 s1 (?sp - 8 + of_nat i) = ?m' (?sp - 8 + of_nat i)" using f1 by simp
  qed
  also have "\<dots> = bytes_of_dword v"
    using load_store_bytes [of "bytes_of_dword v" "?sp - 8" "mem64 s"]
    by (simp add: length_bytes_of_dword)
  finally have top: "dword_of_bytes (load_bytes 8 (?sp - 8) (mem64 s1)) = v"
    by (simp add: dword_of_bytes_of_dword)
  have pop1: "pop_stack64 8 ?s2 = Ok (v, s1\<lparr>regs64 := (regs64 s1)(29 := ?sp)\<rparr>)"
    using inr top by (simp add: pop_stack64_result)
  have "pop_all64 (length vs + 1) s1 = Ok (rev vs @ [v], s1\<lparr>regs64 := (regs64 s1)(29 := ?sp)\<rparr>)"
    using p1 pop1 by (intro pop_all64_append [where ?s1.0 = ?s2]) simp_all
  moreover have "\<forall>a. unat ?sp \<le> unat a \<longrightarrow> mem64 s1 a = mem64 s a"
  proof (intro allI impI)
    fix a :: dword_t assume a: "unat ?sp \<le> unat a"
    have "\<forall>i<length (bytes_of_dword v). ?sp - 8 + of_nat i \<noteq> a"
    proof (intro allI impI)
      fix i assume "i < length (bytes_of_dword v)"
      then have "i < 8" by (simp add: length_bytes_of_dword)
      then have "unat (?sp - 8 + of_nat i) < unat a" using cell a sp8 by simp
      then show "?sp - 8 + of_nat i \<noteq> a" by auto
    qed
    then have "?m' a = mem64 s a" by (rule store_bytes_other)
    moreover have "unat (regs64 ?s' 29) \<le> unat a" using a usp by simp
    ultimately show "mem64 s1 a = mem64 s a" using f1 by simp
  qed
  moreover have "regs64 s1 29 = ?sp - 8 * of_nat (length (v # vs))"
    using r1 by (simp add: algebra_simps)
  ultimately show ?case using push s1 by (intro exI [of _ s1]) (simp add: fun_upd_def)
qed

paragraph \<open>One turn of the loop\<close>








lemma call32_writes:
  assumes "regs32 s 14 - 1 < MEMSIZE32" "r1 < 17" "r2 < 17" "r1 \<noteq> 15"
  shows "\<exists>s'. call32 r1 r2 md s = Ok s' \<and>
           regs32 s' 15 = (if r2 = 14 then regs32 s 14 - 1 else regs32 s r2) + md - 1"
  using assms by (simp add: call32_def push_stack32_result greg32_def sreg32_def)



subsection \<open>The \<^verbatim>\<open>nand\<close> operation of Profile B\<close>

text \<open>
  C10. With \<open>a\<close> the content of the source register and \<open>b\<close> the immediate,
  \<^verbatim>\<open>nand\<close> of mipt64.cpp stores \<open>(a XOR b) AND a\<close> in the destination register.
  That value is \<open>a AND NOT b\<close>, the bits of \<open>a\<close> with those of \<open>b\<close> cleared; it is the
  bitwise NAND \<open>NOT (a AND b)\<close> only when \<open>a\<close> has all its bits set.
\<close>

theorem nand64_is_bit_clear:
  assumes "rd < 33" and "rs < 33"
  shows "nand64 rd rs imm s =
           Ok (s\<lparr>regs64 := (regs64 s)(rd := (regs64 s rs XOR imm) AND regs64 s rs)\<rparr>)
         \<and> (regs64 s rs XOR imm) AND regs64 s rs = regs64 s rs AND NOT imm
         \<and> ((regs64 s rs XOR imm) AND regs64 s rs = NOT (regs64 s rs AND imm)
              \<longleftrightarrow> regs64 s rs = - 1)"
proof (intro conjI)
  show "nand64 rd rs imm s =
          Ok (s\<lparr>regs64 := (regs64 s)(rd := (regs64 s rs XOR imm) AND regs64 s rs)\<rparr>)"
    using assms by (simp add: nand64_def greg64_def sreg64_def)
  show "(regs64 s rs XOR imm) AND regs64 s rs = regs64 s rs AND NOT imm"
    by (rule xor_and_is_bit_clear)
  show "(regs64 s rs XOR imm) AND regs64 s rs = NOT (regs64 s rs AND imm)
          \<longleftrightarrow> regs64 s rs = - 1"
    by (rule bit_clear_vs_nand)
qed

theorem nand64_is_bit_clear_witness:
  "(3 :: dword_t) < 33 \<and> (4 :: dword_t) < 33
   \<and> nand64 3 4 10 (init64\<lparr>regs64 := (\<lambda>_. 0)(4 := 12)\<rparr>)
       = Ok (init64\<lparr>regs64 := (\<lambda>_. 0)(4 := 12, 3 := 4)\<rparr>)
   \<and> ((12 XOR 10) AND 12 :: dword_t) \<noteq> NOT (12 AND 10)"
  using nand64_is_bit_clear [of 3 4 10 "init64\<lparr>regs64 := (\<lambda>_. 0)(4 := 12)\<rparr>"]
  by (simp add: init64_def)

subsection \<open>Comparison and conditional branches\<close>

lemma flag_of_iff:
  "(flag_of a b = 0 \<longleftrightarrow> a = b) \<and> (flag_of a b = 1 \<longleftrightarrow> a < b) \<and> (flag_of a b = 2 \<longleftrightarrow> b < a)"
  by (auto simp: flag_of_def)

lemma cmp32_flag:
  "r1 < 17 \<Longrightarrow> r2 < 17 \<Longrightarrow>
   cmp32 r1 r2 s = Ok (s\<lparr>regs32 := (regs32 s)(16 := flag_of (regs32 s r1) (regs32 s r2))\<rparr>)"
  by (simp add: cmp32_def greg32_def sreg32_def flag_of_def)

lemma cmpi32_flag:
  "r1 < 17 \<Longrightarrow>
   cmpi32 r1 md s = Ok (s\<lparr>regs32 := (regs32 s)(16 := flag_of (regs32 s r1) md)\<rparr>)"
  by (simp add: cmpi32_def greg32_def sreg32_def flag_of_def)

lemma lt32_lt33: "(r :: 64 word) < 32 \<Longrightarrow> r < 33 \<and> r \<noteq> 32"
  by (auto simp: word_less_nat_alt)

lemma cmp64_flag:
  assumes "rd < 32" and "rs < 32"
  shows "cmp64 rd rs imm t =
     Ok (t\<lparr>regs64 := (regs64 t)(32 := flag_of (regs64 t rd) (regs64 t rs + imm))\<rparr>)"
  using lt32_lt33 [OF assms(1)] lt32_lt33 [OF assms(2)]
  by (auto simp: cmp64_def greg64_def sreg64_def flag_of_def)

lemma jumps32:
  assumes "regs32 u 16 = flag_of a b"
  shows "jne32 tail u = (if a \<noteq> b then Ok (redirect32 tail u) else Ok u)"
    and "jeq32 tail u = (if a = b then Ok (redirect32 tail u) else Ok u)"
    and "jle32 tail u = (if a \<le> b then Ok (redirect32 tail u) else Ok u)"
    and "jl32 tail u = (if a < b then Ok (redirect32 tail u) else Ok u)"
    and "jge32 tail u = (if a \<ge> b then Ok (redirect32 tail u) else Ok u)"
    and "jg32 tail u = (if a > b then Ok (redirect32 tail u) else Ok u)"
  using assms
  by (auto simp: jne32_def jeq32_def jle32_def jl32_def jge32_def jg32_def redirect32_def
        greg32_def sreg32_def flag_of_def word_gt_0 split: if_splits)

lemma max_word64: "(- 1 :: 64 word) = 18446744073709551615"
  by simp

lemma one_less_max: "(1 :: 64 word) < - 1"
  unfolding max_word64 by simp

lemma ucast_max: "(ucast (- 1 :: 64 word) :: 32 word) = - 1"
  by (rule bit_word_eqI) (simp add: bit_simps)

text \<open>
  C3 as the specification states it speaks of all integer pairs. The integers of the
  machine are signed: service 100 reads \<open>-1\<close> into a register as the word of all ones
  and service 102 writes that word as \<open>-1\<close>. Compared with 1, that register gives
  Greater (flag 2) though \<open>-1 < 1\<close>, and \<^verbatim>\<open>jl\<close> does not fire; \<^verbatim>\<open>cmp\<close> of Profile B
  does the same.
\<close>

theorem signed_integers_compare_unsigned:
  "syscall32 1 100 (init32\<lparr>stdin32 := [InInt (- 1)]\<rparr>) = Ok (init32\<lparr>regs32 := (\<lambda>_. 0)(1 := - 1)\<rparr>)
   \<and> syscall32 1 102 (init32\<lparr>regs32 := (\<lambda>_. 0)(1 := - 1)\<rparr>)
       = Ok (init32\<lparr>regs32 := (\<lambda>_. 0)(1 := - 1), stdout32 := [OutInt (- 1)]\<rparr>)
   \<and> sint (- 1 :: word_t) < sint (1 :: word_t)
   \<and> cmpi32 1 1 (init32\<lparr>regs32 := (\<lambda>_. 0)(1 := - 1)\<rparr>)
       = Ok (init32\<lparr>regs32 := (\<lambda>_. 0)(1 := - 1, 16 := 2)\<rparr>)
   \<and> jl32 40 (init32\<lparr>regs32 := (\<lambda>_. 0)(1 := - 1, 16 := 2)\<rparr>)
       = Ok (init32\<lparr>regs32 := (\<lambda>_. 0)(1 := - 1, 16 := 2)\<rparr>)
   \<and> cmp64 3 4 0 (init64\<lparr>regs64 := (\<lambda>_. 0)(3 := - 1, 4 := 1)\<rparr>)
       = Ok (init64\<lparr>regs64 := (\<lambda>_. 0)(3 := - 1, 4 := 1, 32 := 2)\<rparr>)"
  by (simp add: syscall32_def cmpi32_def jl32_def cmp64_def greg32_def sreg32_def greg64_def
      sreg64_def init32_def init64_def one_less_max ucast_max)

text \<open>
  C3, amended. The compare operations order their operands as the unsigned 64-bit
  words the registers hold, not as signed integers. \<^verbatim>\<open>cmp\<close> and \<^verbatim>\<open>cmpi\<close> of
  Profile A and \<^verbatim>\<open>cmp\<close> of Profile B (whose second operand is
  \<^verbatim>\<open>greg(rs) + imm\<close>, wrapped) leave in the flag register the value \<open>flag_of a b\<close>,
  which is 0 (Equal) exactly when \<open>a = b\<close>, 1 (Less) exactly when \<open>a < b\<close> and 2
  (Greater) exactly when \<open>a > b\<close> in that unsigned order. In a state whose flag
  register holds the outcome of comparing \<open>a\<close> with \<open>b\<close>, each of
  \<^verbatim>\<open>jne, jeq, jle, jl, jge, jg\<close> writes the program counter exactly when its relation
  holds between \<open>a\<close> and \<open>b\<close>, and returns the state as it was otherwise.
\<close>

theorem compare_branch_consistency:
  assumes "r1 < 17" and "r2 < 17" and "rd < 32" and "rs < 32"
  shows
    "cmp32 r1 r2 s = Ok (s\<lparr>regs32 := (regs32 s)(16 := flag_of (regs32 s r1) (regs32 s r2))\<rparr>)
     \<and> cmpi32 r1 md s = Ok (s\<lparr>regs32 := (regs32 s)(16 := flag_of (regs32 s r1) md)\<rparr>)
     \<and> cmp64 rd rs imm t =
         Ok (t\<lparr>regs64 := (regs64 t)(32 := flag_of (regs64 t rd) (regs64 t rs + imm))\<rparr>)
     \<and> (flag_of a b = 0 \<longleftrightarrow> a = b) \<and> (flag_of a b = 1 \<longleftrightarrow> a < b)
     \<and> (flag_of a b = 2 \<longleftrightarrow> a > b)
     \<and> (regs32 u 16 = flag_of a b \<longrightarrow>
          jne32 tail u = (if a \<noteq> b then Ok (redirect32 tail u) else Ok u)
          \<and> jeq32 tail u = (if a = b then Ok (redirect32 tail u) else Ok u)
          \<and> jle32 tail u = (if a \<le> b then Ok (redirect32 tail u) else Ok u)
          \<and> jl32 tail u = (if a < b then Ok (redirect32 tail u) else Ok u)
          \<and> jge32 tail u = (if a \<ge> b then Ok (redirect32 tail u) else Ok u)
          \<and> jg32 tail u = (if a > b then Ok (redirect32 tail u) else Ok u))"
  using cmp32_flag [OF assms(1,2)] cmpi32_flag [OF assms(1)] cmp64_flag [OF assms(3,4)]
    flag_of_iff [of a b] jumps32 [of u a b]
  by simp

theorem compare_branch_consistency_witness:
  "(1 :: word_t) < 17 \<and> (2 :: word_t) < 17 \<and> (3 :: dword_t) < 32 \<and> (4 :: dword_t) < 32
   \<and> cmp32 1 2 (init32\<lparr>regs32 := (\<lambda>_. 0)(1 := 5, 2 := 7)\<rparr>)
       = Ok (init32\<lparr>regs32 := (\<lambda>_. 0)(1 := 5, 2 := 7, 16 := 1)\<rparr>)
   \<and> cmpi32 1 5 (init32\<lparr>regs32 := (\<lambda>_. 0)(1 := 5, 2 := 7)\<rparr>)
       = Ok (init32\<lparr>regs32 := (\<lambda>_. 0)(1 := 5, 2 := 7, 16 := 0)\<rparr>)
   \<and> cmp64 3 4 1 (init64\<lparr>regs64 := (\<lambda>_. 0)(3 := 9, 4 := 2)\<rparr>)
       = Ok (init64\<lparr>regs64 := (\<lambda>_. 0)(3 := 9, 4 := 2, 32 := 2)\<rparr>)
   \<and> regs32 (init32\<lparr>regs32 := (\<lambda>_. 0)(16 := 1)\<rparr>) 16 = flag_of 5 7
   \<and> jl32 40 (init32\<lparr>regs32 := (\<lambda>_. 0)(16 := 1)\<rparr>)
       = Ok (init32\<lparr>regs32 := (\<lambda>_. 0)(16 := 1, 15 := 39)\<rparr>)
   \<and> jge32 40 (init32\<lparr>regs32 := (\<lambda>_. 0)(16 := 1)\<rparr>)
       = Ok (init32\<lparr>regs32 := (\<lambda>_. 0)(16 := 1)\<rparr>)"
  using compare_branch_consistency [where ?r1.0 = 1 and ?r2.0 = 2 and rd = 3 and rs = 4
      and s = "init32\<lparr>regs32 := (\<lambda>_. 0)(1 := 5, 2 := 7)\<rparr>" and md = 5
      and t = "init64\<lparr>regs64 := (\<lambda>_. 0)(3 := 9, 4 := 2)\<rparr>" and imm = 1
      and a = 5 and b = 7
      and u = "init32\<lparr>regs32 := (\<lambda>_. 0)(16 := 1)\<rparr>" and tail = 40]
  by (simp add: init32_def init64_def flag_of_def redirect32_def)

subsection \<open>Integer division of Profile A\<close>

lemma succ_reg32: "(r :: 64 word) < 16 \<Longrightarrow> r < 17 \<and> r + 1 < 17 \<and> r + 1 \<noteq> r"
  by (auto simp: word_less_nat_alt unat_word_ariths)

lemma pair_value:
  fixes lo hi :: "64 word"
  assumes "lo < 2 ^ 32" and "hi < 2 ^ 32"
  shows "unat (push_bit 32 hi + lo) = unat hi * 2 ^ 32 + unat lo"
proof -
  have l: "unat lo < 2 ^ 32" and h: "unat hi < 2 ^ 32"
    using assms by (simp_all add: word_less_nat_alt)
  have "unat hi * 2 ^ 32 + unat lo < 2 ^ 64" using l h by simp
  then show ?thesis
    by (simp add: push_bit_eq_mult unat_word_ariths)
qed

lemma div32_result:
  assumes "r1 < 16" and "r2 < 17" and "regs32 s r2 \<noteq> 0"
  shows "div32 r1 r2 s =
     Ok (s\<lparr>regs32 := (regs32 s)
          (r1 := (push_bit 32 (regs32 s (r1 + 1)) + regs32 s r1) div regs32 s r2,
           r1 + 1 := (push_bit 32 (regs32 s (r1 + 1)) + regs32 s r1) mod regs32 s r2)\<rparr>)"
  using succ_reg32 [OF assms(1)] assms(2,3)
  by (simp add: div32_def get_pair32_def greg32_def sreg32_def)

lemma divi32_result:
  assumes "r1 < 16" and "md \<noteq> 0"
  shows "divi32 r1 md s =
     Ok (s\<lparr>regs32 := (regs32 s)
          (r1 := (push_bit 32 (regs32 s (r1 + 1)) + regs32 s r1) div md,
           r1 + 1 := (push_bit 32 (regs32 s (r1 + 1)) + regs32 s r1) mod md)\<rparr>)"
  using succ_reg32 [OF assms(1)] assms(2)
  by (simp add: divi32_def get_pair32_def greg32_def sreg32_def)

text \<open>
  C6. \<^verbatim>\<open>div\<close> and \<^verbatim>\<open>divi\<close> of mipt32.cpp, with a divisor that is not zero, form the
  dividend \<^verbatim>\<open>(greg(r1 + 1) << 32) + greg(r1)\<close>, store the quotient in register \<open>r1\<close> and
  the remainder in register \<open>r1 + 1\<close>. When both registers of the pair hold values
  below \<open>2\<^sup>3\<^sup>2\<close>, the dividend is the number \<open>high * 2\<^sup>3\<^sup>2 + low\<close>. The pair
  (high = 0, low = 17) divided by 5 gives quotient 3 and remainder 2 (the witness).
\<close>

theorem div32_quotient_remainder:
  assumes "r1 < 16" and "r2 < 17" and "regs32 s r2 \<noteq> 0" and "md \<noteq> 0"
  shows "div32 r1 r2 s =
           Ok (s\<lparr>regs32 := (regs32 s)
             (r1 := (push_bit 32 (regs32 s (r1 + 1)) + regs32 s r1) div regs32 s r2,
              r1 + 1 := (push_bit 32 (regs32 s (r1 + 1)) + regs32 s r1) mod regs32 s r2)\<rparr>)
         \<and> divi32 r1 md s =
           Ok (s\<lparr>regs32 := (regs32 s)
             (r1 := (push_bit 32 (regs32 s (r1 + 1)) + regs32 s r1) div md,
              r1 + 1 := (push_bit 32 (regs32 s (r1 + 1)) + regs32 s r1) mod md)\<rparr>)
         \<and> (regs32 s r1 < 2 ^ 32 \<and> regs32 s (r1 + 1) < 2 ^ 32 \<longrightarrow>
              unat (push_bit 32 (regs32 s (r1 + 1)) + regs32 s r1)
                = unat (regs32 s (r1 + 1)) * 2 ^ 32 + unat (regs32 s r1))"
  using div32_result [OF assms(1,2,3)] divi32_result [OF assms(1,4)]
    pair_value [of "regs32 s r1" "regs32 s (r1 + 1)"]
  by simp

theorem div32_quotient_remainder_witness:
  "(0 :: word_t) < 16 \<and> (2 :: word_t) < 17
   \<and> regs32 (init32\<lparr>regs32 := (\<lambda>_. 0)(0 := 17, 1 := 0, 2 := 5)\<rparr>) 2 \<noteq> 0
   \<and> (5 :: word_t) \<noteq> 0
   \<and> div32 0 2 (init32\<lparr>regs32 := (\<lambda>_. 0)(0 := 17, 1 := 0, 2 := 5)\<rparr>)
       = Ok (init32\<lparr>regs32 := (\<lambda>_. 0)(0 := 3, 1 := 2, 2 := 5)\<rparr>)
   \<and> divi32 0 5 (init32\<lparr>regs32 := (\<lambda>_. 0)(0 := 17, 1 := 0, 2 := 5)\<rparr>)
       = Ok (init32\<lparr>regs32 := (\<lambda>_. 0)(0 := 3, 1 := 2, 2 := 5)\<rparr>)"
  using div32_quotient_remainder [where ?r1.0 = 0 and ?r2.0 = 2 and md = 5
      and s = "init32\<lparr>regs32 := (\<lambda>_. 0)(0 := 17, 1 := 0, 2 := 5)\<rparr>"]
  by (simp add: init32_def fun_upd_twist)

subsection \<open>Division by zero\<close>

text \<open>
  C8 as the specification states it: a division or modulus by zero is a fatal error that
  the program reports. The code has no test of the divisor and no report: at a zero
  divisor \<^verbatim>\<open>div\<close> and \<^verbatim>\<open>divi\<close> of mipt32.cpp and \<^verbatim>\<open>div\<close> and \<^verbatim>\<open>mod\<close> of
  mipt64.cpp go straight into the C++ division, so the call ends neither in a normal
  return nor in \<^verbatim>\<open>exit\<close>.
\<close>

theorem division_by_zero_unreported:
  "div32 0 2 (init32\<lparr>regs32 := (\<lambda>_. 0)(0 := 17)\<rparr>) = Undefined
   \<and> divi32 0 0 (init32\<lparr>regs32 := (\<lambda>_. 0)(0 := 17)\<rparr>) = Undefined
   \<and> div64 1 2 0 (init64\<lparr>regs64 := (\<lambda>_. 0)(2 := 17)\<rparr>) = Undefined
   \<and> mod64 1 2 0 (init64\<lparr>regs64 := (\<lambda>_. 0)(2 := 17)\<rparr>) = Undefined"
  by (simp add: div32_def divi32_def div64_def mod64_def get_pair32_def greg32_def greg64_def
      init32_def init64_def)

text \<open>
  C8, amended. The four operations perform the division unguarded. With valid register
  operands and a zero divisor the operation has no defined result and reports nothing;
  with a divisor that is not zero Profile B's \<^verbatim>\<open>div\<close> and \<^verbatim>\<open>mod\<close> store the quotient,
  respectively the remainder, of \<^verbatim>\<open>greg(rs)\<close> by the immediate in register \<open>rd\<close>.
\<close>

theorem division_unguarded:
  assumes "r1 < 16" and "r2 < 17" and "rd < 33" and "rs < 33"
  shows "(regs32 s r2 = 0 \<longrightarrow> div32 r1 r2 s = Undefined)
         \<and> divi32 r1 0 s = Undefined
         \<and> div64 rd rs 0 t = Undefined
         \<and> mod64 rd rs 0 t = Undefined
         \<and> (imm \<noteq> 0 \<longrightarrow>
              div64 rd rs imm t = Ok (t\<lparr>regs64 := (regs64 t)(rd := regs64 t rs div imm)\<rparr>)
              \<and> mod64 rd rs imm t = Ok (t\<lparr>regs64 := (regs64 t)(rd := regs64 t rs mod imm)\<rparr>))"
  using succ_reg32 [OF assms(1)] assms(2,3,4)
  by (simp add: div32_def divi32_def div64_def mod64_def get_pair32_def greg32_def greg64_def
      sreg64_def)

theorem division_unguarded_witness:
  "(0 :: word_t) < 16 \<and> (2 :: word_t) < 17 \<and> (1 :: dword_t) < 33 \<and> (2 :: dword_t) < 33
   \<and> regs32 (init32\<lparr>regs32 := (\<lambda>_. 0)(0 := 17)\<rparr>) 2 = 0
   \<and> div32 0 2 (init32\<lparr>regs32 := (\<lambda>_. 0)(0 := 17)\<rparr>) = Undefined
   \<and> (5 :: dword_t) \<noteq> 0
   \<and> div64 1 2 5 (init64\<lparr>regs64 := (\<lambda>_. 0)(2 := 17)\<rparr>)
       = Ok (init64\<lparr>regs64 := (\<lambda>_. 0)(2 := 17, 1 := 3)\<rparr>)
   \<and> mod64 1 2 5 (init64\<lparr>regs64 := (\<lambda>_. 0)(2 := 17)\<rparr>)
       = Ok (init64\<lparr>regs64 := (\<lambda>_. 0)(2 := 17, 1 := 2)\<rparr>)"
  using division_unguarded [where ?r1.0 = 0 and ?r2.0 = 2 and rd = 1 and rs = 2 and imm = 5
      and s = "init32\<lparr>regs32 := (\<lambda>_. 0)(0 := 17)\<rparr>"
      and t = "init64\<lparr>regs64 := (\<lambda>_. 0)(2 := 17)\<rparr>"]
  by (simp add: init32_def init64_def)

subsection \<open>The write-integer service\<close>

text \<open>
  C9 as the specification states it: service 102 writes the value held in the register,
  whichever register it is. In mipt64.cpp the same content 10 is written as 10 from
  register 5 and as \<open>10 / 2 + 4 = 9\<close> from register 31.
\<close>

theorem svc64_write_depends_on_register:
  "svc64 5 0 102 (init64\<lparr>regs64 := (\<lambda>_. 0)(5 := 10)\<rparr>)
     = Ok (init64\<lparr>regs64 := (\<lambda>_. 0)(5 := 10), stdout64 := [OutInt 10]\<rparr>)
   \<and> svc64 31 0 102 (init64\<lparr>regs64 := (\<lambda>_. 0)(31 := 10)\<rparr>)
     = Ok (init64\<lparr>regs64 := (\<lambda>_. 0)(31 := 10), stdout64 := [OutInt 9]\<rparr>)"
  by (simp add: svc64_def greg64_def init64_def)

text \<open>
  C9, amended. \<^verbatim>\<open>syscall(reg, 102)\<close> of mipt32.cpp writes the low 32 bits of register
  \<open>reg\<close>, read as a signed \<^verbatim>\<open>int\<close>. \<^verbatim>\<open>svc(rd, rs, 102)\<close> of mipt64.cpp writes the
  content \<open>v\<close> of register \<open>rd\<close>, read as a signed 64-bit number, when \<open>rd\<close> is neither
  30 nor 31; for the link register 30 and the program counter 31 it writes
  \<open>v / 2 + 4\<close> instead. Nothing else of the state changes.
\<close>

theorem write_integer_service:
  assumes "reg < 17" and "rd < 33"
  shows "syscall32 reg 102 s =
           Ok (s\<lparr>stdout32 := stdout32 s @ [OutInt (sint (ucast (regs32 s reg) :: 32 word))]\<rparr>)
         \<and> svc64 rd rs 102 t =
           Ok (t\<lparr>stdout64 := stdout64 t @
                 [OutInt (if rd = 31 \<or> rd = 30 then sint (regs64 t rd div 2 + 4)
                          else sint (regs64 t rd))]\<rparr>)"
  using assms by (simp add: syscall32_def svc64_def greg32_def greg64_def)

theorem write_integer_service_witness:
  "(0 :: word_t) < 17 \<and> (5 :: dword_t) < 33
   \<and> syscall32 0 102 (init32\<lparr>regs32 := (\<lambda>_. 0)(0 := 42)\<rparr>)
       = Ok (init32\<lparr>regs32 := (\<lambda>_. 0)(0 := 42), stdout32 := [OutInt 42]\<rparr>)
   \<and> svc64 5 0 102 (init64\<lparr>regs64 := (\<lambda>_. 0)(5 := 42)\<rparr>)
       = Ok (init64\<lparr>regs64 := (\<lambda>_. 0)(5 := 42), stdout64 := [OutInt 42]\<rparr>)"
  using write_integer_service [where reg = 0 and rd = 5 and rs = 0
      and s = "init32\<lparr>regs32 := (\<lambda>_. 0)(0 := 42)\<rparr>"
      and t = "init64\<lparr>regs64 := (\<lambda>_. 0)(5 := 42)\<rparr>"]
  by (simp add: init32_def init64_def)

subsection \<open>Memory accesses outside the array\<close>

text \<open>
  C7 as the specification states it: an access outside \<open>[0, capacity)\<close> fails with an
  explicit bounds error. \<^verbatim>\<open>gmem\<close> and \<^verbatim>\<open>smem\<close> of both files index the array
  at once; at the first address past the array, and for a push with the stack pointer at
  0 (whose decrement wraps around), they neither return nor leave through an error of the
  program's own.
\<close>

theorem bounds_error_absent:
  "gmem32 init32 1048576 = Undefined
   \<and> smem32 1048576 7 init32 = Undefined
   \<and> push_stack32 7 init32 = Undefined
   \<and> gmem64 init64 2097152 = Undefined
   \<and> smem64 2097152 7 init64 = Undefined
   \<and> push_stack64 7 8 init64 = Undefined"
  by (simp add: gmem32_def smem32_def push_stack32_def gmem64_def smem64_def push_stack64_def
      greg32_def sreg32_def greg64_def sreg64_def MEMSIZE32_def MEMSIZE64_def
      init32_def init64_def)

text \<open>
  C7, amended. No memory access of the engine tests its address. An access is inside
  the array when \<open>adr < 2\<^sup>2\<^sup>0\<close> (Profile A) or \<open>adr + 8 \<le> 2\<^sup>2\<^sup>1\<close> (Profile B,
  which moves 8 bytes). Inside the array a store changes the addressed cell (Profile A)
  or the 8 addressed bytes (Profile B) and nothing else, and a load from the same
  address returns the stored value. Outside the array the load, the store, the push, the
  pop and the instruction fetch have no defined result, and no error is reported.
\<close>

theorem memory_access_unchecked:
  "(adr < MEMSIZE32 \<longrightarrow>
      (\<exists>s'. smem32 adr v s = Ok s' \<and> gmem32 s' adr = Ok v \<and> regs32 s' = regs32 s
            \<and> (\<forall>b. b \<noteq> adr \<longrightarrow> mem32 s' b = mem32 s b)))
   \<and> (\<not> adr < MEMSIZE32 \<longrightarrow> gmem32 s adr = Undefined \<and> smem32 adr v s = Undefined)
   \<and> (\<not> regs32 s 14 - 1 < MEMSIZE32 \<longrightarrow> push_stack32 v s = Undefined)
   \<and> (\<not> regs32 s 14 < MEMSIZE32 \<longrightarrow> pop_stack32 x s = Undefined)
   \<and> (\<not> regs32 s 15 < MEMSIZE32 \<longrightarrow> emulate_step32 F junk s = Undefined)
   \<and> (ad \<le> MEMSIZE64 - 8 \<longrightarrow>
      (\<exists>t'. smem64 ad w t = Ok t' \<and> gmem64 t' ad = Ok w \<and> regs64 t' = regs64 t
            \<and> (\<forall>b. unat b < unat ad \<or> unat ad + 8 \<le> unat b \<longrightarrow> mem64 t' b = mem64 t b)))
   \<and> (\<not> ad \<le> MEMSIZE64 - 8 \<longrightarrow> gmem64 t ad = Undefined \<and> smem64 ad w t = Undefined)
   \<and> (\<not> regs64 t 29 - y \<le> MEMSIZE64 - 8 \<longrightarrow> push_stack64 w y t = Undefined)
   \<and> (\<not> regs64 t 29 \<le> MEMSIZE64 - 8 \<longrightarrow> pop_stack64 y t = Undefined)
   \<and> (\<not> regs64 t 31 \<le> MEMSIZE64 - 8 \<longrightarrow> emulate_step64 F t = Undefined)"
proof -
  have A: "adr < MEMSIZE32 \<longrightarrow>
      (\<exists>s'. smem32 adr v s = Ok s' \<and> gmem32 s' adr = Ok v \<and> regs32 s' = regs32 s
            \<and> (\<forall>b. b \<noteq> adr \<longrightarrow> mem32 s' b = mem32 s b))"
    by (simp add: smem32_def gmem32_def)
  have B: "ad \<le> MEMSIZE64 - 8 \<longrightarrow>
      (\<exists>t'. smem64 ad w t = Ok t' \<and> gmem64 t' ad = Ok w \<and> regs64 t' = regs64 t
            \<and> (\<forall>b. unat b < unat ad \<or> unat ad + 8 \<le> unat b \<longrightarrow> mem64 t' b = mem64 t b))"
  proof
    assume inr: "ad \<le> MEMSIZE64 - 8"
    let ?t' = "t\<lparr>mem64 := store_bytes ad (bytes_of_dword w) (mem64 t)\<rparr>"
    have st: "smem64 ad w t = Ok ?t'" using inr by (rule smem64_result)
    have ld: "gmem64 ?t' ad = Ok w" using inr st by (rule gmem64_smem64_same)
    have fr: "mem64 ?t' b = mem64 t b" if b: "unat b < unat ad \<or> unat ad + 8 \<le> unat b" for b
    proof -
      have "\<forall>i<length (bytes_of_dword w). ad + of_nat i \<noteq> b"
      proof (intro allI impI)
        fix i assume "i < length (bytes_of_dword w)"
        then have i: "i < 8" by (simp add: length_bytes_of_dword)
        have "unat ad + 8 \<le> unat MEMSIZE64" using inr by (simp add: in_range64)
        then have "unat (ad + of_nat i) = unat ad + i"
          using i by (simp add: unat_plus_small MEMSIZE64_def)
        then show "ad + of_nat i \<noteq> b" using b i by auto
      qed
      then show ?thesis by (simp add: store_bytes_other)
    qed
    show "\<exists>t'. smem64 ad w t = Ok t' \<and> gmem64 t' ad = Ok w \<and> regs64 t' = regs64 t
            \<and> (\<forall>b. unat b < unat ad \<or> unat ad + 8 \<le> unat b \<longrightarrow> mem64 t' b = mem64 t b)"
      using st ld fr by (intro exI [of _ ?t']) simp
  qed
  have C: "(\<not> adr < MEMSIZE32 \<longrightarrow> gmem32 s adr = Undefined \<and> smem32 adr v s = Undefined)
   \<and> (\<not> regs32 s 14 - 1 < MEMSIZE32 \<longrightarrow> push_stack32 v s = Undefined)
   \<and> (\<not> regs32 s 14 < MEMSIZE32 \<longrightarrow> pop_stack32 x s = Undefined)
   \<and> (\<not> regs32 s 15 < MEMSIZE32 \<longrightarrow> emulate_step32 F junk s = Undefined)"
    by (simp add: gmem32_def smem32_def push_stack32_def pop_stack32_def emulate_step32_def
        greg32_def sreg32_def)
  have D: "(\<not> ad \<le> MEMSIZE64 - 8 \<longrightarrow> gmem64 t ad = Undefined \<and> smem64 ad w t = Undefined)
   \<and> (\<not> regs64 t 29 - y \<le> MEMSIZE64 - 8 \<longrightarrow> push_stack64 w y t = Undefined)
   \<and> (\<not> regs64 t 29 \<le> MEMSIZE64 - 8 \<longrightarrow> pop_stack64 y t = Undefined)
   \<and> (\<not> regs64 t 31 \<le> MEMSIZE64 - 8 \<longrightarrow> emulate_step64 F t = Undefined)"
    by (simp add: gmem64_def smem64_def push_stack64_def pop_stack64_def emulate_step64_def
        greg64_def sreg64_def)
  show ?thesis using A B C D by blast
qed

theorem memory_access_unchecked_witness:
  "(5 :: word_t) < MEMSIZE32
   \<and> (\<exists>s'. smem32 5 7 init32 = Ok s' \<and> gmem32 s' 5 = Ok 7 \<and> regs32 s' = regs32 init32
          \<and> (\<forall>b. b \<noteq> 5 \<longrightarrow> mem32 s' b = mem32 init32 b))
   \<and> (16 :: dword_t) \<le> MEMSIZE64 - 8
   \<and> (\<exists>t'. smem64 16 7 init64 = Ok t' \<and> gmem64 t' 16 = Ok 7 \<and> regs64 t' = regs64 init64
          \<and> (\<forall>b. unat b < unat (16 :: dword_t) \<or> unat (16 :: dword_t) + 8 \<le> unat b
                \<longrightarrow> mem64 t' b = mem64 init64 b))
   \<and> \<not> (1048576 :: word_t) < MEMSIZE32
   \<and> gmem32 init32 1048576 = Undefined
   \<and> \<not> regs32 init32 14 - 1 < MEMSIZE32
   \<and> push_stack32 7 init32 = Undefined
   \<and> \<not> regs32 (init32\<lparr>regs32 := (\<lambda>_. 0)(14 := 1048576, 15 := 1048576)\<rparr>) 14 < MEMSIZE32
   \<and> pop_stack32 1 (init32\<lparr>regs32 := (\<lambda>_. 0)(14 := 1048576, 15 := 1048576)\<rparr>) = Undefined
   \<and> \<not> regs32 (init32\<lparr>regs32 := (\<lambda>_. 0)(14 := 1048576, 15 := 1048576)\<rparr>) 15 < MEMSIZE32
   \<and> emulate_step32 fpu0 (0, 0, 0) (init32\<lparr>regs32 := (\<lambda>_. 0)(14 := 1048576, 15 := 1048576)\<rparr>)
       = Undefined
   \<and> \<not> (2097148 :: dword_t) \<le> MEMSIZE64 - 8
   \<and> gmem64 init64 2097148 = Undefined
   \<and> \<not> regs64 init64 29 - 8 \<le> MEMSIZE64 - 8
   \<and> push_stack64 7 8 init64 = Undefined
   \<and> \<not> regs64 (init64\<lparr>regs64 := (\<lambda>_. 0)(29 := 2097152, 31 := 2097152)\<rparr>) 29 \<le> MEMSIZE64 - 8
   \<and> pop_stack64 8 (init64\<lparr>regs64 := (\<lambda>_. 0)(29 := 2097152, 31 := 2097152)\<rparr>) = Undefined
   \<and> \<not> regs64 (init64\<lparr>regs64 := (\<lambda>_. 0)(29 := 2097152, 31 := 2097152)\<rparr>) 31 \<le> MEMSIZE64 - 8
   \<and> emulate_step64 fpu0 (init64\<lparr>regs64 := (\<lambda>_. 0)(29 := 2097152, 31 := 2097152)\<rparr>)
       = Undefined"
proof -
  have m32: "MEMSIZE32 = 1048576" and m64: "MEMSIZE64 - 8 = 2097144"
    by (simp_all add: MEMSIZE32_def MEMSIZE64_def)
  have r32: "regs32 init32 14 - 1 = 18446744073709551615" and r64: "regs64 init64 29 - 8 = 18446744073709551608"
    by (simp_all add: init32_def init64_def)
  note inside = memory_access_unchecked [where adr = 5 and v = 7 and s = init32
      and ad = 16 and w = 7 and t = init64 and y = 8 and x = 1 and F = fpu0 and junk = "(0, 0, 0)"]
  note outside = memory_access_unchecked [where adr = 1048576 and v = 7 and ad = 2097148 and w = 7
      and s = "init32\<lparr>regs32 := (\<lambda>_. 0)(14 := 1048576, 15 := 1048576)\<rparr>"
      and t = "init64\<lparr>regs64 := (\<lambda>_. 0)(29 := 2097152, 31 := 2097152)\<rparr>"
      and y = 8 and x = 1 and F = fpu0 and junk = "(0, 0, 0)"]
  have in32: "(5 :: word_t) < MEMSIZE32" and in64: "(16 :: dword_t) \<le> MEMSIZE64 - 8"
    by (simp_all add: m32 m64)
  have out: "\<not> (1048576 :: word_t) < MEMSIZE32" "\<not> regs32 init32 14 - 1 < MEMSIZE32"
      "\<not> (2097148 :: dword_t) \<le> MEMSIZE64 - 8" "\<not> regs64 init64 29 - 8 \<le> MEMSIZE64 - 8"
    by (simp_all add: m32 m64 r32 r64)
  have out': "\<not> regs32 (init32\<lparr>regs32 := (\<lambda>_. 0)(14 := 1048576, 15 := 1048576)\<rparr>) 14 < MEMSIZE32"
      "\<not> regs32 (init32\<lparr>regs32 := (\<lambda>_. 0)(14 := 1048576, 15 := 1048576)\<rparr>) 15 < MEMSIZE32"
      "\<not> regs64 (init64\<lparr>regs64 := (\<lambda>_. 0)(29 := 2097152, 31 := 2097152)\<rparr>) 29 \<le> MEMSIZE64 - 8"
      "\<not> regs64 (init64\<lparr>regs64 := (\<lambda>_. 0)(29 := 2097152, 31 := 2097152)\<rparr>) 31 \<le> MEMSIZE64 - 8"
    by (simp_all add: m32 m64)
  have g32: "gmem32 init32 1048576 = Undefined" and g64: "gmem64 init64 2097148 = Undefined"
    by (simp_all add: gmem32_def gmem64_def m32 m64)
  show ?thesis
    using inside outside in32 in64 out out' g32 g64 by blast
qed

subsection \<open>The program counter after each instruction\<close>









lemma switch_c64_bl_immediate:
  "t0_5 row = 19 \<Longrightarrow> t6_10 row = 27 \<or> t6_10 row = 31 \<or> t6_10 row = 0 \<Longrightarrow>
   switch_c64 F row t = bl64 (t6_10 row) (t21_31 row) t"
  by (auto simp: switch_c64_def decode64_def TYPE64_def)













subsection \<open>Stack discipline\<close>

text \<open>
  C5. A push decrements the stack pointer by one unit (1 in Profile A, 8 in Profile B)
  and stores at the new address; a pop loads from the stack pointer and then increments it
  by one unit. When the pushes stay inside the memory (Profile A: \<open>N \<le> sp \<le> 2\<^sup>2\<^sup>0\<close>;
  Profile B: \<open>8 N \<le> sp \<le> 2\<^sup>2\<^sup>1\<close>), \<open>N\<close> pushes followed by \<open>N\<close> pops return the
  pushed values in reverse order and leave the stack pointer where it was.
\<close>

theorem stack_discipline:
  assumes "length vs \<le> unat (regs32 s 14)" and "unat (regs32 s 14) \<le> unat MEMSIZE32"
    and "8 * length ws \<le> unat (regs64 t 29)" and "unat (regs64 t 29) \<le> unat MEMSIZE64"
  shows
    "(regs32 s 14 - 1 < MEMSIZE32 \<longrightarrow>
        push_stack32 v s =
          Ok (s\<lparr>regs32 := (regs32 s)(14 := regs32 s 14 - 1),
                mem32 := (mem32 s)(regs32 s 14 - 1 := v)\<rparr>))
     \<and> (regs32 s 14 < MEMSIZE32 \<longrightarrow>
        pop_stack32 1 s =
          Ok (mem32 s (regs32 s 14), s\<lparr>regs32 := (regs32 s)(14 := regs32 s 14 + 1)\<rparr>))
     \<and> (regs64 t 29 - 8 \<le> MEMSIZE64 - 8 \<longrightarrow>
        push_stack64 w 8 t =
          Ok (t\<lparr>regs64 := (regs64 t)(29 := regs64 t 29 - 8),
                mem64 := store_bytes (regs64 t 29 - 8) (bytes_of_dword w) (mem64 t)\<rparr>))
     \<and> (regs64 t 29 \<le> MEMSIZE64 - 8 \<longrightarrow>
        pop_stack64 8 t =
          Ok (dword_of_bytes (load_bytes 8 (regs64 t 29) (mem64 t)),
              t\<lparr>regs64 := (regs64 t)(29 := regs64 t 29 + 8)\<rparr>))
     \<and> (\<exists>s1 s2. push_all32 vs s = Ok s1 \<and> pop_all32 (length vs) s1 = Ok (rev vs, s2)
            \<and> regs32 s2 14 = regs32 s 14)
     \<and> (\<exists>t1 t2. push_all64 ws t = Ok t1 \<and> pop_all64 (length ws) t1 = Ok (rev ws, t2)
            \<and> regs64 t2 29 = regs64 t 29)"
proof -
  obtain s1 where a: "push_all32 vs s = Ok s1"
      "pop_all32 (length vs) s1 = Ok (rev vs, s1\<lparr>regs32 := (regs32 s1)(14 := regs32 s 14)\<rparr>)"
    using push_pop_all32 [OF assms(1,2)] by blast
  have A: "\<exists>s1 s2. push_all32 vs s = Ok s1 \<and> pop_all32 (length vs) s1 = Ok (rev vs, s2)
            \<and> regs32 s2 14 = regs32 s 14"
    using a by (intro exI [of _ s1] exI [of _ "s1\<lparr>regs32 := (regs32 s1)(14 := regs32 s 14)\<rparr>"])
      simp
  obtain t1 where b: "push_all64 ws t = Ok t1"
      "pop_all64 (length ws) t1 = Ok (rev ws, t1\<lparr>regs64 := (regs64 t1)(29 := regs64 t 29)\<rparr>)"
    using push_pop_all64 [OF assms(3,4)] by blast
  have B: "\<exists>t1 t2. push_all64 ws t = Ok t1 \<and> pop_all64 (length ws) t1 = Ok (rev ws, t2)
            \<and> regs64 t2 29 = regs64 t 29"
    using b by (intro exI [of _ t1] exI [of _ "t1\<lparr>regs64 := (regs64 t1)(29 := regs64 t 29)\<rparr>"])
      simp
  show ?thesis
    using A B push_stack32_result [of s v] pop_stack32_result [of s 1]
      push_stack64_result [of t w] pop_stack64_result [of t 8]
    by (intro conjI impI) assumption+
qed

theorem stack_discipline_witness:
  "length [1, 2, 3 :: word_t] \<le> unat (regs32 (init32\<lparr>regs32 := (\<lambda>_. 0)(14 := 1048575)\<rparr>) 14)
   \<and> unat (regs32 (init32\<lparr>regs32 := (\<lambda>_. 0)(14 := 1048575)\<rparr>) 14) \<le> unat MEMSIZE32
   \<and> 8 * length [4, 5 :: dword_t] \<le> unat (regs64 (init64\<lparr>regs64 := (\<lambda>_. 0)(29 := 2097144)\<rparr>) 29)
   \<and> unat (regs64 (init64\<lparr>regs64 := (\<lambda>_. 0)(29 := 2097144)\<rparr>) 29) \<le> unat MEMSIZE64
   \<and> (\<exists>s1 s2. push_all32 [1, 2, 3] (init32\<lparr>regs32 := (\<lambda>_. 0)(14 := 1048575)\<rparr>) = Ok s1
          \<and> pop_all32 3 s1 = Ok ([3, 2, 1], s2) \<and> regs32 s2 14 = 1048575)
   \<and> (\<exists>t1 t2. push_all64 [4, 5] (init64\<lparr>regs64 := (\<lambda>_. 0)(29 := 2097144)\<rparr>) = Ok t1
          \<and> pop_all64 2 t1 = Ok ([5, 4], t2) \<and> regs64 t2 29 = 2097144)"
proof -
  let ?s = "init32\<lparr>regs32 := (\<lambda>_. 0)(14 := 1048575)\<rparr>"
  let ?t = "init64\<lparr>regs64 := (\<lambda>_. 0)(29 := 2097144)\<rparr>"
  have sp: "regs32 ?s 14 = 1048575" "regs64 ?t 29 = 2097144"
    by (simp_all add: init32_def init64_def)
  have h: "length [1, 2, 3 :: word_t] \<le> unat (regs32 ?s 14)" "unat (regs32 ?s 14) \<le> unat MEMSIZE32"
      "8 * length [4, 5 :: dword_t] \<le> unat (regs64 ?t 29)" "unat (regs64 ?t 29) \<le> unat MEMSIZE64"
    by (simp_all add: sp MEMSIZE32_def MEMSIZE64_def)
  note inst = stack_discipline [OF h, where v = 0 and w = 0]
  have len: "length [1, 2, 3 :: word_t] = 3" "rev [1, 2, 3 :: word_t] = [3, 2, 1]"
      "length [4, 5 :: dword_t] = 2" "rev [4, 5 :: dword_t] = [5, 4]"
    by simp_all
  have "\<exists>s1 s2. push_all32 [1, 2, 3] ?s = Ok s1
          \<and> pop_all32 (length [1, 2, 3 :: word_t]) s1 = Ok (rev [1, 2, 3], s2)
          \<and> regs32 s2 14 = regs32 ?s 14"
    using inst by blast
  then have A: "\<exists>s1 s2. push_all32 [1, 2, 3] ?s = Ok s1
          \<and> pop_all32 3 s1 = Ok ([3, 2, 1], s2) \<and> regs32 s2 14 = 1048575"
    unfolding len sp .
  have "\<exists>t1 t2. push_all64 [4, 5] ?t = Ok t1
          \<and> pop_all64 (length [4, 5 :: dword_t]) t1 = Ok (rev [4, 5], t2)
          \<and> regs64 t2 29 = regs64 ?t 29"
    using inst by blast
  then have B: "\<exists>t1 t2. push_all64 [4, 5] ?t = Ok t1
          \<and> pop_all64 2 t1 = Ok ([5, 4], t2) \<and> regs64 t2 29 = 2097144"
    unfolding len sp .
  show ?thesis using h A B by (intro conjI)
qed

subsection \<open>The label pass after an erased line\<close>

text \<open>
  C1 asks that no line is skipped after a label-only line has been erased, and that every
  label is bound. \<^verbatim>\<open>parse_labels\<close> of both files erases \<^verbatim>\<open>input[i]\<close> and then
  increments \<open>i\<close>, so the line that moved into slot \<open>i\<close> is never examined. On the
  program \<^verbatim>\<open>a:\<close>, \<^verbatim>\<open>b:\<close>, \<^verbatim>\<open>halt r0, 0\<close> the line \<^verbatim>\<open>b:\<close> stays in the instruction
  sequence and the label \<open>b\<close> is not bound, in Profile A and in Profile B alike.
\<close>

theorem parse_labels_skips_line_after_erase:
  "(\<exists>label. parse_labels32 [''a:'', ''b:'', ''halt r0, 0''] Map.empty
              = Ok ([''b:'', ''halt r0, 0''], label)
           \<and> label ''a'' = Some 0 \<and> label ''b'' = None)
   \<and> (\<exists>label. parse_labels64 [''a:'', ''b:'', ''halt r0, rz, 0''] Map.empty
              = Ok ([''b:'', ''halt r0, rz, 0''], label)
           \<and> label ''a'' = Some (- 8) \<and> label ''b'' = None)"
  by (simp add: parse_labels32_def parse_labels64_def split_at_def erase_def)

subsection \<open>Label offsets and encode positions in Profile B\<close>

lemma erase_append: "erase (length pre) (pre @ x # rest) = pre @ rest"
  by (simp add: erase_def)

lemma parse_labels64_items:
  "well_formed items \<Longrightarrow> length pre + length items \<le> 268435456 \<Longrightarrow>
   parse_labels64_from (length pre) (pre @ render items) label
     = Ok (pre @ map snd items, bind_labels (length pre) items label)"
proof (induction items arbitrary: pre label)
  case Nil
  show ?case by (subst parse_labels64_from.simps) simp
next
  case (Cons item items)
  obtain l ins where item: "item = (l, ins)" by (cases item)
  have wf: "well_formed items" and ins: "instruction_line ins"
    using Cons.prems(1) item by (auto simp: well_formed_def)
  have len: "length (pre @ [ins]) + length items \<le> 268435456"
    using Cons.prems(2) by simp
  have IH: "parse_labels64_from (length (pre @ [ins])) ((pre @ [ins]) @ render items) lab
     = Ok ((pre @ [ins]) @ map snd items, bind_labels (length (pre @ [ins])) items lab)" for lab
    using wf len by (rule Cons.IH)
  show ?case
  proof (cases l)
    case None
    obtain t ops where sp: "split ins = t # ops" and nl: "last t \<noteq> CHR '':''"
      using ins by (auto simp: instruction_line_def split: list.splits)
    show ?thesis
      using IH [of label] sp nl None item
      by (subst parse_labels64_from.simps) (simp add: nth_append)
  next
    case (Some ll)
    have lo: "split ll = [ll]" "last ll = CHR '':''"
      using Cons.prems(1) item Some by (auto simp: well_formed_def label_only_def)
    have small: "length pre \<le> 268435456" using Cons.prems(2) by simp
    show ?thesis
      using IH [of "label(butlast ll \<mapsto> 8 * (word_of_nat (length pre) - 1))"] lo small Some item
      by (subst parse_labels64_from.simps) (simp add: nth_append erase_append)
  qed
qed


lemma bind_labels_other:
  "(\<forall>j < length items. \<forall>l'. fst (items ! j) = Some l' \<longrightarrow> butlast l' \<noteq> name) \<Longrightarrow>
   bind_labels i items label name = label name"
proof (induction items arbitrary: i label)
  case Nil
  show ?case by simp
next
  case (Cons item items)
  obtain l ins where item: "item = (l, ins)" by (cases item)
  have rest: "\<forall>j < length items. \<forall>l'. fst (items ! j) = Some l' \<longrightarrow> butlast l' \<noteq> name"
  proof (intro allI impI)
    fix j l' assume j: "j < length items" and l': "fst (items ! j) = Some l'"
    have "Suc j < length (item # items)" using j by simp
    moreover have "fst ((item # items) ! Suc j) = Some l'" using l' by simp
    ultimately show "butlast l' \<noteq> name" using Cons.prems by blast
  qed
  show ?case
  proof (cases l)
    case None
    then show ?thesis using item Cons.IH [OF rest] by simp
  next
    case (Some ll)
    have "0 < length (item # items)" by simp
    moreover have "fst ((item # items) ! 0) = Some ll" using item Some by simp
    ultimately have "butlast ll \<noteq> name" using Cons.prems by blast
    then show ?thesis using item Some Cons.IH [OF rest] by simp
  qed
qed

lemma bind_labels_at:
  "k < length items \<Longrightarrow> fst (items ! k) = Some ll \<Longrightarrow>
   (\<forall>j. k < j \<and> j < length items \<longrightarrow> (\<forall>l'. fst (items ! j) = Some l' \<longrightarrow> butlast l' \<noteq> butlast ll)) \<Longrightarrow>
   bind_labels i items label (butlast ll) = Some (8 * (word_of_nat (i + k) - 1))"
proof (induction items arbitrary: i k label)
  case Nil
  then show ?case by simp
next
  case (Cons item items)
  obtain l ins where item: "item = (l, ins)" by (cases item)
  show ?case
  proof (cases k)
    case 0
    have l: "l = Some ll" using Cons.prems(2) 0 item by simp
    have "\<forall>j < length items. \<forall>l'. fst (items ! j) = Some l' \<longrightarrow> butlast l' \<noteq> butlast ll"
    proof (intro allI impI)
      fix j l' assume j: "j < length items" and l': "fst (items ! j) = Some l'"
      have "k < Suc j \<and> Suc j < length (item # items)" using j 0 by simp
      moreover have "fst ((item # items) ! Suc j) = Some l'" using l' by simp
      ultimately show "butlast l' \<noteq> butlast ll" using Cons.prems(3) by blast
    qed
    then have "bind_labels (i + 1) items (label(butlast ll \<mapsto> 8 * (word_of_nat i - 1))) (butlast ll)
        = (label(butlast ll \<mapsto> 8 * (word_of_nat i - 1))) (butlast ll)"
      by (rule bind_labels_other)
    then show ?thesis using item l 0 by simp
  next
    case (Suc k')
    have k': "k' < length items" "fst (items ! k') = Some ll"
      using Cons.prems(1,2) Suc by simp_all
    have later: "\<forall>j. k' < j \<and> j < length items \<longrightarrow>
        (\<forall>l'. fst (items ! j) = Some l' \<longrightarrow> butlast l' \<noteq> butlast ll)"
    proof (intro allI impI)
      fix j l' assume j: "k' < j \<and> j < length items" and l': "fst (items ! j) = Some l'"
      have "k < Suc j \<and> Suc j < length (item # items)" using j Suc by simp
      moreover have "fst ((item # items) ! Suc j) = Some l'" using l' by simp
      ultimately show "butlast l' \<noteq> butlast ll" using Cons.prems(3) by blast
    qed
    have "bind_labels (i + 1) items lab (butlast ll) = Some (8 * (word_of_nat (i + 1 + k') - 1))" for lab
      using k' later by (rule Cons.IH)
    then show ?thesis using item Suc by (cases l) simp_all
  qed
qed

lemma unat_plus_8:
  "unat pc + 8 \<le> unat MEMSIZE64 \<Longrightarrow> unat (pc + 8 :: 64 word) = unat pc + 8"
  using unat_plus_small [of pc 8] by (simp add: MEMSIZE64_def)

lemma assemble_loop64_instructions:
  "(\<forall>ins \<in> set xs. instruction_line ins) \<Longrightarrow>
   (\<forall>ins \<in> set xs. \<forall>pc r. \<exists>w. make_comm P (split ins) pc label r = Ok w) \<Longrightarrow>
   unat pc + 8 * length xs \<le> unat MEMSIZE64 \<Longrightarrow>
   \<exists>s1. assemble_loop64 P label xs pc s = Ok (pc + 8 * word_of_nat (length xs), s1)
      \<and> (\<forall>ys. assemble_loop64 P label (xs @ ys) pc s
                = assemble_loop64 P label ys (pc + 8 * word_of_nat (length xs)) s1)"
proof (induction xs arbitrary: pc s)
  case Nil
  show ?case by simp
next
  case (Cons x xs)
  obtain t ops where sp: "split x = t # ops" and t: "t \<noteq> ''end''" "t \<noteq> ''bytes''"
      and ops: "t = ''word'' \<or> t = ''double'' \<Longrightarrow> ops \<noteq> []"
    using Cons.prems(1) by (auto simp: instruction_line_def split: list.splits if_splits)
  have inr: "pc \<le> MEMSIZE64 - 8" using Cons.prems(3) by (simp add: in_range64 [symmetric])
  have upc: "unat (pc + 8) = unat pc + 8" using Cons.prems(3) by (intro unat_plus_8) simp
  have rest: "\<forall>ins \<in> set xs. instruction_line ins" using Cons.prems(1) by simp
  have enc: "\<forall>ins \<in> set xs. \<forall>pc r. \<exists>w. make_comm P (split ins) pc label r = Ok w"
    using Cons.prems(2) by simp
  have room: "unat (pc + 8) + 8 * length xs \<le> unat MEMSIZE64" using Cons.prems(3) upc by simp
  have pcs: "pc + 8 + 8 * word_of_nat (length xs) = pc + 8 * word_of_nat (length (x # xs))"
    by (simp add: algebra_simps)
  have "\<exists>v. \<forall>ys. assemble_loop64 P label (x # ys) pc s
      = bind (smem64 pc v s) (\<lambda>s1. assemble_loop64 P label ys (pc + 8) s1)"
  proof (cases "t = ''word'' \<or> t = ''double''")
    case True
    then obtain lit rest' where "ops = lit # rest'" using ops by (cases ops) auto
    then show ?thesis using sp t True
      by (intro exI [of _ "if t = ''word'' then strtol P lit else strtod P lit"]) auto
  next
    case False
    have "\<exists>w. make_comm P (split x) pc label (regs64 s) = Ok w" using Cons.prems(2) by simp
    then obtain w where "make_comm P (t # ops) pc label (regs64 s) = Ok w" using sp by auto
    then show ?thesis using sp t False by (intro exI [of _ w]) simp
  qed
  then obtain v where step: "\<And>ys. assemble_loop64 P label (x # ys) pc s
      = bind (smem64 pc v s) (\<lambda>s1. assemble_loop64 P label ys (pc + 8) s1)"
    by blast
  obtain s' where st: "smem64 pc v s = Ok s'" using inr by (simp add: smem64_result)
  obtain s1 where s1: "assemble_loop64 P label xs (pc + 8) s' = Ok (pc + 8 + 8 * word_of_nat (length xs), s1)"
      and app: "\<forall>ys. assemble_loop64 P label (xs @ ys) (pc + 8) s'
                = assemble_loop64 P label ys (pc + 8 + 8 * word_of_nat (length xs)) s1"
    using Cons.IH [OF rest enc room, of s'] by blast
  have "assemble_loop64 P label (x # xs) pc s = Ok (pc + 8 * word_of_nat (length (x # xs)), s1)"
    using step [of xs] st s1 pcs by simp
  moreover have "\<forall>ys. assemble_loop64 P label ((x # xs) @ ys) pc s
                = assemble_loop64 P label ys (pc + 8 * word_of_nat (length (x # xs))) s1"
    using step st app pcs by simp
  ultimately show ?case by blast
qed

lemma memory_cell64:
  assumes "ad \<le> MEMSIZE64 - 8"
  shows "\<exists>t'. smem64 ad w t = Ok t' \<and> gmem64 t' ad = Ok w \<and> regs64 t' = regs64 t"
proof -
  let ?t' = "t\<lparr>mem64 := store_bytes ad (bytes_of_dword w) (mem64 t)\<rparr>"
  have st: "smem64 ad w t = Ok ?t'" using assms by (rule smem64_result)
  have "gmem64 ?t' ad = Ok w" using assms st by (rule gmem64_smem64_same)
  then show ?thesis using st by (intro exI [of _ ?t']) simp
qed

text \<open>
  C4 as the specification states it: the offset bound to a label equals the byte position
  at which the encode pass writes the instruction after the label. For the program
  \<^verbatim>\<open>main:\<close>, \<^verbatim>\<open>svc r0, rz, 100\<close>, \<^verbatim>\<open>end main\<close> the label pass binds \<open>main\<close> to
  \<open>8 * (0 - 1)\<close>, that is \<open>2\<^sup>6\<^sup>4 - 8\<close>, while the encode pass writes the \<^verbatim>\<open>svc\<close>
  line at position 0 (the word found there is the one encoded at position 0) and
  \<^verbatim>\<open>end main\<close> sets the program counter to 0.
\<close>

theorem label_offset_differs_from_position:
  "parse_labels64 [''main:'', ''svc r0, rz, 100'', ''end main''] Map.empty
     = Ok ([''svc r0, rz, 100'', ''end main''], [''main'' \<mapsto> - 8])
   \<and> bind (assemble_loop64 asm0 [''main'' \<mapsto> - 8] [''svc r0, rz, 100'', ''end main''] 0 init64)
        (\<lambda>(pc, s1). bind (gmem64 s1 0) (\<lambda>w. Ok (w, regs64 s1 31)))
     = Ok (1, 0)
   \<and> (- 8 :: dword_t) \<noteq> 0"
proof (intro conjI)
  show "parse_labels64 [''main:'', ''svc r0, rz, 100'', ''end main''] Map.empty
     = Ok ([''svc r0, rz, 100'', ''end main''], [''main'' \<mapsto> - 8])"
    by (simp add: parse_labels64_def split_at_def erase_def)
  obtain s1 where st: "smem64 0 1 init64 = Ok s1" and ld: "gmem64 s1 0 = Ok 1"
      and rg: "regs64 s1 = regs64 init64"
    using memory_cell64 [of 0 1 init64] by (auto simp: MEMSIZE64_def)
  have "assemble_loop64 asm0 [''main'' \<mapsto> - 8] [''svc r0, rz, 100'', ''end main''] 0 init64
      = Ok (8, s1\<lparr>regs64 := (regs64 s1)(31 := 0)\<rparr>)"
    using st by (simp add: split_at_def asm0_def label_at_def sreg64_def)
  moreover have "gmem64 (s1\<lparr>regs64 := (regs64 s1)(31 := 0)\<rparr>) 0 = Ok 1"
    using ld by (simp add: gmem64_def)
  ultimately show "bind (assemble_loop64 asm0 [''main'' \<mapsto> - 8] [''svc r0, rz, 100'', ''end main''] 0 init64)
        (\<lambda>(pc, s1). bind (gmem64 s1 0) (\<lambda>w. Ok (w, regs64 s1 31)))
     = Ok (1, 0)"
    by simp
  show "(- 8 :: dword_t) \<noteq> 0" by simp
qed

text \<open>
  C4, amended. Take a Profile B program of at most \<open>2\<^sup>1\<^sup>8\<close> instruction lines (lines that
  are neither labels nor \<^verbatim>\<open>end\<close> or \<^verbatim>\<open>bytes\<close> directives), each optionally preceded by
  one label-only line, and an encoder that returns a word for the instructions before
  instruction \<open>k\<close>. The label pass leaves
  exactly the instruction lines and binds the label in front of instruction \<open>k\<close>, when no
  later label has the same name, to \<open>8 k - 8\<close> (modulo \<open>2\<^sup>6\<^sup>4\<close>): 8 less than the
  position \<open>8 k\<close> that the encode pass has reached when it arrives at that instruction.
  \<^verbatim>\<open>end\<close> with that label adds the 8 back and sets the program counter to \<open>8 k\<close>.
\<close>

theorem label_is_position_minus_8:
  assumes "well_formed items" and "length items \<le> 262144"
    and "\<forall>ins \<in> set (take k (map snd items)). \<forall>pc r.
           \<exists>w. make_comm P (split ins) pc (bind_labels 0 items Map.empty) r = Ok w"
    and "k < length items" and "fst (items ! k) = Some ll"
    and "\<forall>j. k < j \<and> j < length items \<longrightarrow>
           (\<forall>l'. fst (items ! j) = Some l' \<longrightarrow> butlast l' \<noteq> butlast ll)"
  shows "\<exists>label s1.
     parse_labels64 (render items) Map.empty = Ok (map snd items, label)
     \<and> label (butlast ll) = Some (8 * word_of_nat k - 8)
     \<and> assemble_loop64 P label (take k (map snd items)) 0 s = Ok (8 * word_of_nat k, s1)
     \<and> assemble_loop64 P label (map snd items) 0 s
         = assemble_loop64 P label (drop k (map snd items)) (8 * word_of_nat k) s1
     \<and> (\<forall>e rest pc u. split e = [''end'', butlast ll] \<longrightarrow>
           assemble_loop64 P label (e # rest) pc u
             = Ok (pc, u\<lparr>regs64 := (regs64 u)(31 := 8 * word_of_nat k)\<rparr>))"
proof -
  let ?label = "bind_labels 0 items Map.empty"
  let ?out = "map snd items"
  have "parse_labels64_from (length ([] :: string list)) ([] @ render items) Map.empty
      = Ok ([] @ map snd items, bind_labels (length ([] :: string list)) items Map.empty)"
    using assms(1,2) by (intro parse_labels64_items) simp_all
  then have pass1: "parse_labels64 (render items) Map.empty = Ok (?out, ?label)"
    by (simp add: parse_labels64_def)
  have "?label (butlast ll) = Some (8 * (word_of_nat (0 + k) - 1))"
    using assms(4,5,6) by (rule bind_labels_at)
  then have bound: "?label (butlast ll) = Some (8 * word_of_nat k - 8)"
    by (simp add: algebra_simps)
  have ins: "\<forall>ins \<in> set (take k ?out). instruction_line ins"
  proof
    fix ins assume "ins \<in> set (take k ?out)"
    then have "ins \<in> set ?out" by (rule in_set_takeD)
    then show "instruction_line ins" using assms(1) by (auto simp: well_formed_def)
  qed
  have len: "length (take k ?out) = k" using assms(4) by simp
  have room: "unat (0 :: dword_t) + 8 * length (take k ?out) \<le> unat MEMSIZE64"
    using assms(2,4) by (simp add: MEMSIZE64_def)
  obtain s1 where
    run: "assemble_loop64 P ?label (take k ?out) 0 s
        = Ok (0 + 8 * word_of_nat (length (take k ?out)), s1)"
    and app: "\<forall>ys. assemble_loop64 P ?label (take k ?out @ ys) 0 s
        = assemble_loop64 P ?label ys (0 + 8 * word_of_nat (length (take k ?out))) s1"
    using assemble_loop64_instructions [OF ins assms(3) room, of s] by blast
  have run': "assemble_loop64 P ?label (take k ?out) 0 s = Ok (8 * word_of_nat k, s1)"
    using run unfolding len by simp
  have "assemble_loop64 P ?label (take k ?out @ drop k ?out) 0 s
      = assemble_loop64 P ?label (drop k ?out) (8 * word_of_nat k) s1"
    using app [rule_format, of "drop k ?out"] unfolding len by simp
  then have whole: "assemble_loop64 P ?label ?out 0 s
      = assemble_loop64 P ?label (drop k ?out) (8 * word_of_nat k) s1"
    by simp
  have "end": "\<forall>e rest pc u. split e = [''end'', butlast ll] \<longrightarrow>
      assemble_loop64 P ?label (e # rest) pc u
        = Ok (pc, u\<lparr>regs64 := (regs64 u)(31 := 8 * word_of_nat k)\<rparr>)"
    using bound by (simp add: label_at_def sreg64_def)
  show ?thesis
    using pass1 bound run' whole "end" by (intro exI [of _ ?label] exI [of _ s1]) blast
qed

theorem label_is_position_minus_8_witness:
  "well_formed [(None, ''svc r0, rz, 100''), (Some ''loop:'', ''svc r0, rz, 102'')]
   \<and> length [(None, ''svc r0, rz, 100''), (Some ''loop:'', ''svc r0, rz, 102'')] \<le> 262144
   \<and> take 1 (map snd [(None, ''svc r0, rz, 100''), (Some ''loop:'', ''svc r0, rz, 102'')])
       = [''svc r0, rz, 100'']
   \<and> (\<forall>pc r. \<exists>w. make_comm asm0 (split ''svc r0, rz, 100'') pc
         (bind_labels 0 [(None, ''svc r0, rz, 100''), (Some ''loop:'', ''svc r0, rz, 102'')]
            Map.empty) r = Ok w)
   \<and> 1 < length [(None, ''svc r0, rz, 100''), (Some ''loop:'', ''svc r0, rz, 102'')]
   \<and> fst ([(None, ''svc r0, rz, 100''), (Some ''loop:'', ''svc r0, rz, 102'')] ! 1) = Some ''loop:''
   \<and> \<not> (\<exists>j. 1 < j \<and> j < length [(None, ''svc r0, rz, 100''), (Some ''loop:'', ''svc r0, rz, 102'')])
   \<and> split ''end loop'' = [''end'', butlast ''loop:'']
   \<and> (\<exists>label s1.
        parse_labels64 [''svc r0, rz, 100'', ''loop:'', ''svc r0, rz, 102''] Map.empty
          = Ok ([''svc r0, rz, 100'', ''svc r0, rz, 102''], label)
        \<and> label ''loop'' = Some 0
        \<and> assemble_loop64 asm0 label [''svc r0, rz, 100''] 0 init64 = Ok (8, s1)
        \<and> assemble_loop64 asm0 label [''end loop''] 0 init64
            = Ok (0, init64\<lparr>regs64 := (regs64 init64)(31 := 8)\<rparr>))"
proof -
  let ?items = "[(None, ''svc r0, rz, 100''), (Some ''loop:'', ''svc r0, rz, 102'')]"
  have wf: "well_formed ?items"
    by (simp add: well_formed_def label_only_def instruction_line_def split_at_def)
  have sz: "length ?items \<le> 262144" by simp
  have before: "take 1 (map snd ?items) = [''svc r0, rz, 100'']" by simp
  have enc1: "\<forall>pc r. \<exists>w. make_comm asm0 (split ''svc r0, rz, 100'') pc
      (bind_labels 0 ?items Map.empty) r = Ok w"
    by (simp add: asm0_def)
  have enc: "\<forall>ins \<in> set (take 1 (map snd ?items)). \<forall>pc r.
      \<exists>w. make_comm asm0 (split ins) pc (bind_labels 0 ?items Map.empty) r = Ok w"
    unfolding before using enc1 by simp
  have k: "1 < length ?items" "fst (?items ! 1) = Some ''loop:''" by simp_all
  have later: "\<forall>j. 1 < j \<and> j < length ?items \<longrightarrow>
      (\<forall>l'. fst (?items ! j) = Some l' \<longrightarrow> butlast l' \<noteq> butlast ''loop:'')"
    by auto
  have none: "\<not> (\<exists>j. 1 < j \<and> j < length ?items)" by auto
  have e: "split ''end loop'' = [''end'', butlast ''loop:'']" by (simp add: split_at_def)
  obtain label s1 where
    a: "parse_labels64 (render ?items) Map.empty = Ok (map snd ?items, label)"
    and b: "label (butlast ''loop:'') = Some (8 * word_of_nat 1 - 8)"
    and c: "assemble_loop64 asm0 label (take 1 (map snd ?items)) 0 init64 = Ok (8 * word_of_nat 1, s1)"
    and d: "\<forall>e rest pc u. split e = [''end'', butlast ''loop:''] \<longrightarrow>
           assemble_loop64 asm0 label (e # rest) pc u
             = Ok (pc, u\<lparr>regs64 := (regs64 u)(31 := 8 * word_of_nat 1)\<rparr>)"
    using label_is_position_minus_8 [OF wf sz enc k later, of init64] by blast
  have a': "parse_labels64 [''svc r0, rz, 100'', ''loop:'', ''svc r0, rz, 102''] Map.empty
      = Ok ([''svc r0, rz, 100'', ''svc r0, rz, 102''], label)"
    using a by simp
  have b': "label ''loop'' = Some 0" using b by simp
  have c': "assemble_loop64 asm0 label [''svc r0, rz, 100''] 0 init64 = Ok (8, s1)"
    using c unfolding before by simp
  have d': "assemble_loop64 asm0 label [''end loop''] 0 init64
      = Ok (0, init64\<lparr>regs64 := (regs64 init64)(31 := 8)\<rparr>)"
    using d [rule_format, OF e, of "[]" 0 init64] by simp
  have concl: "\<exists>label s1.
        parse_labels64 [''svc r0, rz, 100'', ''loop:'', ''svc r0, rz, 102''] Map.empty
          = Ok ([''svc r0, rz, 100'', ''svc r0, rz, 102''], label)
        \<and> label ''loop'' = Some 0
        \<and> assemble_loop64 asm0 label [''svc r0, rz, 100''] 0 init64 = Ok (8, s1)
        \<and> assemble_loop64 asm0 label [''end loop''] 0 init64
            = Ok (0, init64\<lparr>regs64 := (regs64 init64)(31 := 8)\<rparr>)"
    using a' b' c' d' by blast
  show ?thesis
    by (intro conjI) (rule wf sz before enc1 k none e concl)+
qed

end
